theory Spec2Isabelle
  imports Main "HOL-Library.Word"
begin

unbundle bit_operations_syntax

section \<open>Standard script recognition of txscript (standard.go) and stdscript (scriptv0.go)\<close>

text \<open>
  Scripts, hashes and keys are Go byte slices; they are lists of 8-bit words here.  A Go
  slice that may be \<open>nil\<close> and is tested against \<open>nil\<close> is an \<open>option\<close>.
  Lengths and offsets are natural numbers: the scripts handled here are far shorter than
  the range of Go's \<open>int\<close> and \<open>int32\<close>, the one place where a 32-bit length can
  turn negative (the length field of \<open>OP_PUSHDATA4\<close>) is written out.
\<close>

type_synonym byte = "8 word"

subsection \<open>Results\<close>

datatype error =
    ErrMalformedPush
  | ErrNotPushOnly
  | ErrNotMultisigScript
  | ErrNotStakeOutput
  | ErrUnsupportedAddress
  | ErrNumOutOfRange
  | ErrMinimalData
  | ErrUnsupportedScriptVersion

text \<open>
  A Go function that can hit a run-time panic (an index out of range) has three outcomes:
  it returns a value, it returns a recoverable error, or it panics.
\<close>

datatype 'a outcome = Value 'a | Error error | Panic

subsection \<open>Script classes (standard.go, lines 30-74)\<close>

text \<open>
  \<open>type ScriptClass byte\<close> with the constants numbered by \<open>iota\<close>.  The constants
  are abbreviations of their byte values, so that a class read from a byte and a named class
  are compared as the code compares them.
\<close>

type_synonym ScriptClass = byte

abbreviation (input) NonStandardTy :: ScriptClass where "NonStandardTy \<equiv> 0"
abbreviation (input) PubKeyTy :: ScriptClass where "PubKeyTy \<equiv> 1"
abbreviation (input) PubKeyHashTy :: ScriptClass where "PubKeyHashTy \<equiv> 2"
abbreviation (input) ScriptHashTy :: ScriptClass where "ScriptHashTy \<equiv> 3"
abbreviation (input) MultiSigTy :: ScriptClass where "MultiSigTy \<equiv> 4"
abbreviation (input) NullDataTy :: ScriptClass where "NullDataTy \<equiv> 5"
abbreviation (input) StakeSubmissionTy :: ScriptClass where "StakeSubmissionTy \<equiv> 6"
abbreviation (input) StakeGenTy :: ScriptClass where "StakeGenTy \<equiv> 7"
abbreviation (input) StakeRevocationTy :: ScriptClass where "StakeRevocationTy \<equiv> 8"
abbreviation (input) StakeSubChangeTy :: ScriptClass where "StakeSubChangeTy \<equiv> 9"
abbreviation (input) PubkeyAltTy :: ScriptClass where "PubkeyAltTy \<equiv> 10"
abbreviation (input) PubkeyHashAltTy :: ScriptClass where "PubkeyHashAltTy \<equiv> 11"

text \<open>
  The table is a Go slice literal with index keys, so its entries sit in the order of the
  class values 0 to 11 whatever the order they are written in.
\<close>

definition scriptClassToName :: "string list" where
  "scriptClassToName =
     [''nonstandard'', ''pubkey'', ''pubkeyhash'', ''scripthash'', ''multisig'',
      ''nulldata'', ''stakesubmission'', ''stakegen'', ''stakerevoke'', ''sstxchange'',
      ''pubkeyalt'', ''pubkeyhashalt'']"

text \<open>
  \<open>func (t ScriptClass) String() string\<close>.  \<open>int(t) < 0\<close> never holds for a byte.
  The index expression panics when the index is not below the length of the slice.
\<close>

definition String :: "ScriptClass \<Rightarrow> string outcome" where
  "String t =
     (if unat t > length scriptClassToName \<or> int (unat t) < 0
      then Value ''Invalid''
      else if unat t < length scriptClassToName
           then Value (scriptClassToName ! unat t)
           else Panic)"

subsection \<open>Opcodes and signature types\<close>

text \<open>
  Modelled from the spec: the opcode table (opcode.go) and the signature types (package
  dcrec) are not among the sources.  The spec fixes the data-push opcodes by the length they
  push, the small-integer opcodes by \<open>value = opcode - 80\<close> and names the others; the
  byte values are those of the Decred script language.
\<close>

abbreviation (input) OP_0 :: byte where "OP_0 \<equiv> 0x00"
abbreviation (input) OP_DATA_1 :: byte where "OP_DATA_1 \<equiv> 0x01"
abbreviation (input) OP_DATA_5 :: byte where "OP_DATA_5 \<equiv> 0x05"
abbreviation (input) OP_DATA_20 :: byte where "OP_DATA_20 \<equiv> 0x14"
abbreviation (input) OP_DATA_30 :: byte where "OP_DATA_30 \<equiv> 0x1e"
abbreviation (input) OP_DATA_32 :: byte where "OP_DATA_32 \<equiv> 0x20"
abbreviation (input) OP_DATA_33 :: byte where "OP_DATA_33 \<equiv> 0x21"
abbreviation (input) OP_DATA_65 :: byte where "OP_DATA_65 \<equiv> 0x41"
abbreviation (input) OP_DATA_75 :: byte where "OP_DATA_75 \<equiv> 0x4b"
abbreviation (input) OP_PUSHDATA1 :: byte where "OP_PUSHDATA1 \<equiv> 0x4c"
abbreviation (input) OP_PUSHDATA2 :: byte where "OP_PUSHDATA2 \<equiv> 0x4d"
abbreviation (input) OP_PUSHDATA4 :: byte where "OP_PUSHDATA4 \<equiv> 0x4e"
abbreviation (input) OP_1NEGATE :: byte where "OP_1NEGATE \<equiv> 0x4f"
abbreviation (input) OP_1 :: byte where "OP_1 \<equiv> 0x51"
abbreviation (input) OP_2 :: byte where "OP_2 \<equiv> 0x52"
abbreviation (input) OP_16 :: byte where "OP_16 \<equiv> 0x60"
abbreviation (input) OP_RETURN :: byte where "OP_RETURN \<equiv> 0x6a"
abbreviation (input) OP_DUP :: byte where "OP_DUP \<equiv> 0x76"
abbreviation (input) OP_EQUAL :: byte where "OP_EQUAL \<equiv> 0x87"
abbreviation (input) OP_EQUALVERIFY :: byte where "OP_EQUALVERIFY \<equiv> 0x88"
abbreviation (input) OP_HASH160 :: byte where "OP_HASH160 \<equiv> 0xa9"
abbreviation (input) OP_CHECKSIG :: byte where "OP_CHECKSIG \<equiv> 0xac"
abbreviation (input) OP_CHECKMULTISIG :: byte where "OP_CHECKMULTISIG \<equiv> 0xae"
abbreviation (input) OP_SSTX :: byte where "OP_SSTX \<equiv> 0xba"
abbreviation (input) OP_SSGEN :: byte where "OP_SSGEN \<equiv> 0xbb"
abbreviation (input) OP_SSRTX :: byte where "OP_SSRTX \<equiv> 0xbc"
abbreviation (input) OP_SSTXCHANGE :: byte where "OP_SSTXCHANGE \<equiv> 0xbd"
abbreviation (input) OP_CHECKSIGALT :: byte where "OP_CHECKSIGALT \<equiv> 0xbe"

type_synonym SignatureType = int

abbreviation (input) STEcdsaSecp256k1 :: SignatureType where "STEcdsaSecp256k1 \<equiv> 0"
abbreviation (input) STEd25519 :: SignatureType where "STEd25519 \<equiv> 1"
abbreviation (input) STSchnorrSecp256k1 :: SignatureType where "STSchnorrSecp256k1 \<equiv> 2"

text \<open>
  Modelled from the spec: \<open>isSmallInt\<close> and \<open>asSmallInt\<close> (script.go) are not among
  the sources.  The small-integer opcodes are \<open>OP_0\<close> and \<open>OP_1\<close> to \<open>OP_16\<close>,
  and the value of the latter is the opcode minus 80, computed on bytes.
\<close>

definition isSmallInt :: "byte \<Rightarrow> bool" where
  "isSmallInt op = (op = OP_0 \<or> (OP_1 \<le> op \<and> op \<le> OP_16))"

definition asSmallInt :: "byte \<Rightarrow> int" where
  "asSmallInt op = (if op = OP_0 then 0 else int (unat (op - (OP_1 - 1))))"

text \<open>
  Modelled from the spec: the strict public key encoding checks are not among the sources.
  A compressed key has 33 bytes and starts with 0x02 or 0x03, an uncompressed one has 65
  bytes and starts with 0x04 (spec, section 4.2); \<open>isStrictPubKeyEncoding\<close> accepts
  both forms, \<open>IsStrictCompressedPubKeyEncoding\<close> the compressed form only.
\<close>

definition IsStrictCompressedPubKeyEncoding :: "byte list \<Rightarrow> bool" where
  "IsStrictCompressedPubKeyEncoding pubKey =
     (length pubKey = 33 \<and> (pubKey ! 0 = 0x02 \<or> pubKey ! 0 = 0x03))"

definition isStrictPubKeyEncoding :: "byte list \<Rightarrow> bool" where
  "isStrictPubKeyEncoding pubKey =
     ((length pubKey = 33 \<and> (pubKey ! 0 = 0x02 \<or> pubKey ! 0 = 0x03)) \<or>
      (length pubKey = 65 \<and> pubKey ! 0 = 0x04))"

subsection \<open>The tokenizer and the parser\<close>

text \<open>
  A decoded operation: the opcode's byte value and the pushed data, \<open>None\<close> for
  Go's \<open>nil\<close> (an opcode that carries no data).
\<close>

record parsedOpcode =
  opcode_value :: byte
  data :: "byte list option"

text \<open>\<open>len\<close> of a slice that may be \<open>nil\<close>, and its bytes.\<close>

definition bytes :: "byte list option \<Rightarrow> byte list" where
  "bytes d = (case d of None \<Rightarrow> [] | Some b \<Rightarrow> b)"

text \<open>
  Modelled from the spec: the tokenizer and \<open>parseScript\<close> (tokenizer.go, script.go) are
  not among the sources.  The spec (sections 2 and 6) has one decoding of a script into
  operations, each a plain opcode or a data-push opcode with its payload, in which the
  declared length of every push must be satisfiable by the remaining bytes.  \<open>decodeOp\<close>
  decodes the operation at the head of a byte string: the opcode, its data and the number
  of bytes it takes, or \<open>None\<close> for a malformed push.  \<open>OP_DATA_1\<close> to \<open>OP_DATA_75\<close>
  push as many bytes as their value; \<open>OP_PUSHDATA1\<close>, \<open>2\<close> and \<open>4\<close> are followed by
  a little-endian length of 1, 2 and 4 bytes, read as a signed 32-bit number, and a negative
  length is malformed.
\<close>

fun le_nat :: "byte list \<Rightarrow> nat" where
  "le_nat [] = 0"
| "le_nat (b # bs) = unat b + 256 * le_nat bs"

definition decodePushData :: "byte \<Rightarrow> nat \<Rightarrow> byte list \<Rightarrow> (byte \<times> byte list option \<times> nat) option" where
  "decodePushData op n rest =
     (if length rest < n then None
      else let dataLen = le_nat (take n rest); body = drop n rest in
        if dataLen > length body \<or> dataLen \<ge> 2 ^ 31 then None
        else Some (op, Some (take dataLen body), 1 + n + dataLen))"

definition decodeOp :: "byte list \<Rightarrow> (byte \<times> byte list option \<times> nat) option" where
  "decodeOp s =
     (case s of
        [] \<Rightarrow> None
      | op # rest \<Rightarrow>
          if OP_DATA_1 \<le> op \<and> op \<le> OP_DATA_75 then
            (if length rest < unat op then None
             else Some (op, Some (take (unat op) rest), 1 + unat op))
          else if op = OP_PUSHDATA1 then decodePushData op 1 rest
          else if op = OP_PUSHDATA2 then decodePushData op 2 rest
          else if op = OP_PUSHDATA4 then decodePushData op 4 rest
          else Some (op, None, 1))"

text \<open>
  The tokenizer is a value that \<open>Next\<close> advances: the script, the offset of the next
  operation, the opcode and data of the operation last decoded, and the error, if any.
\<close>

record ScriptTokenizer =
  tk_script :: "byte list"
  tk_offset :: nat
  tk_op :: byte
  tk_data :: "byte list option"
  tk_err :: "error option"

definition MakeScriptTokenizer :: "16 word \<Rightarrow> byte list \<Rightarrow> ScriptTokenizer" where
  "MakeScriptTokenizer scriptVersion script =
     \<lparr>tk_script = script, tk_offset = 0, tk_op = 0, tk_data = None,
      tk_err = (if scriptVersion \<noteq> 0 then Some ErrUnsupportedScriptVersion else None)\<rparr>"

definition Done :: "ScriptTokenizer \<Rightarrow> bool" where
  "Done t = (tk_err t \<noteq> None \<or> tk_offset t \<ge> length (tk_script t))"

definition Next :: "ScriptTokenizer \<Rightarrow> bool \<times> ScriptTokenizer" where
  "Next t =
     (if Done t then (False, t)
      else case decodeOp (drop (tk_offset t) (tk_script t)) of
        None \<Rightarrow> (False, t\<lparr>tk_err := Some ErrMalformedPush\<rparr>)
      | Some (op, d, n) \<Rightarrow> (True, t\<lparr>tk_offset := tk_offset t + n, tk_op := op, tk_data := d\<rparr>))"

function parseScript :: "byte list \<Rightarrow> error + parsedOpcode list" where
  "parseScript s =
     (if s = [] then Inr []
      else case decodeOp s of
        None \<Rightarrow> Inl ErrMalformedPush
      | Some (op, d, n) \<Rightarrow>
          (case parseScript (drop n s) of
             Inl e \<Rightarrow> Inl e
           | Inr pops \<Rightarrow> Inr (\<lparr>opcode_value = op, data = d\<rparr> # pops)))"
  by pat_completeness auto
termination
proof (relation "measure length")
  show "wf (measure length)" by simp
next
  fix s :: "byte list" and x2 op y d n
  assume ne: "s \<noteq> []" and dec: "decodeOp s = Some x2" and x2: "(op, y) = x2" "(d, n) = y"
  from dec x2 have "decodeOp s = Some (op, d, n)" by simp
  then have "0 < n"
    by (auto simp: decodeOp_def decodePushData_def Let_def split: list.splits if_splits)
  with ne show "(drop n s, s) \<in> measure length" by simp
qed

declare parseScript.simps [simp del]

subsection \<open>Template matchers on raw bytes (standard.go, lines 266-434)\<close>

text \<open>
  The Go slice expression \<open>s[lo:hi]\<close>.  Every use below is guarded by a test of
  \<open>len(s)\<close> that keeps the bounds in range; the slices taken are never empty, so an
  extractor returns \<open>nil\<close> exactly where it says \<open>return nil\<close>.
\<close>

definition subslice :: "byte list \<Rightarrow> nat \<Rightarrow> nat \<Rightarrow> byte list" where
  "subslice s lo hi = take (hi - lo) (drop lo s)"

definition extractCompressedPubKey :: "byte list \<Rightarrow> byte list option" where
  "extractCompressedPubKey script =
     (if length script = 35 \<and>
         script ! 34 = OP_CHECKSIG \<and>
         script ! 0 = OP_DATA_33 \<and>
         (script ! 1 = 0x02 \<or> script ! 1 = 0x03)
      then Some (subslice script 1 34)
      else None)"

definition extractUncompressedPubKey :: "byte list \<Rightarrow> byte list option" where
  "extractUncompressedPubKey script =
     (if length script = 67 \<and>
         script ! 66 = OP_CHECKSIG \<and>
         script ! 0 = OP_DATA_65 \<and>
         script ! 1 = 0x04
      then Some (subslice script 1 66)
      else None)"

definition extractPubKey :: "byte list \<Rightarrow> byte list option" where
  "extractPubKey script =
     (case extractCompressedPubKey script of
        Some pubKey \<Rightarrow> Some pubKey
      | None \<Rightarrow> extractUncompressedPubKey script)"

definition isPubKeyScript :: "byte list \<Rightarrow> bool" where
  "isPubKeyScript script = (extractPubKey script \<noteq> None)"

definition extractPubKeyAltDetails :: "byte list \<Rightarrow> byte list option \<times> SignatureType" where
  "extractPubKeyAltDetails script =
     (if length script < 3 \<or> script ! (length script - 1) \<noteq> OP_CHECKSIGALT then (None, 0)
      else if length script = 35 \<and> script ! 0 = OP_DATA_32 \<and>
              isSmallInt (script ! 33) \<and> asSmallInt (script ! 33) = STEd25519
      then (Some (subslice script 1 33), STEd25519)
      else if length script = 36 \<and> script ! 0 = OP_DATA_33 \<and>
              isSmallInt (script ! 34) \<and>
              asSmallInt (script ! 34) = STSchnorrSecp256k1 \<and>
              isStrictPubKeyEncoding (subslice script 1 34)
      then (Some (subslice script 1 34), STSchnorrSecp256k1)
      else (None, 0))"

definition isPubKeyAltScript :: "byte list \<Rightarrow> bool" where
  "isPubKeyAltScript script = (fst (extractPubKeyAltDetails script) \<noteq> None)"

definition extractPubKeyHash :: "byte list \<Rightarrow> byte list option" where
  "extractPubKeyHash script =
     (if length script = 25 \<and>
         script ! 0 = OP_DUP \<and>
         script ! 1 = OP_HASH160 \<and>
         script ! 2 = OP_DATA_20 \<and>
         script ! 23 = OP_EQUALVERIFY \<and>
         script ! 24 = OP_CHECKSIG
      then Some (subslice script 3 23)
      else None)"

definition isPubKeyHashScript :: "byte list \<Rightarrow> bool" where
  "isPubKeyHashScript script = (extractPubKeyHash script \<noteq> None)"

definition isStandardAltSignatureType :: "byte \<Rightarrow> bool" where
  "isStandardAltSignatureType op =
     (if \<not> isSmallInt op then False
      else let sigType = asSmallInt op in
        sigType = STEd25519 \<or> sigType = STSchnorrSecp256k1)"

definition extractPubKeyHashAltDetails :: "byte list \<Rightarrow> byte list option \<times> SignatureType" where
  "extractPubKeyHashAltDetails script =
     (if length script = 26 \<and>
         script ! 0 = OP_DUP \<and>
         script ! 1 = OP_HASH160 \<and>
         script ! 2 = OP_DATA_20 \<and>
         script ! 23 = OP_EQUALVERIFY \<and>
         isStandardAltSignatureType (script ! 24) \<and>
         script ! 25 = OP_CHECKSIGALT
      then (Some (subslice script 3 23), asSmallInt (script ! 24))
      else (None, 0))"

definition isPubKeyHashAltScript :: "byte list \<Rightarrow> bool" where
  "isPubKeyHashAltScript script = (fst (extractPubKeyHashAltDetails script) \<noteq> None)"

text \<open>
  Modelled from the spec: \<open>extractScriptHash\<close> and \<open>isScriptHashScript\<close> (script.go)
  are not among the sources.  A pay-to-script-hash script is \<open>OP_HASH160\<close>, a push of
  the 20-byte script hash and \<open>OP_EQUAL\<close>: the form that \<open>payToScriptHashScript\<close>
  builds and that the comments of \<open>ExtractPkScriptAddrs\<close> give.
\<close>

definition extractScriptHash :: "byte list \<Rightarrow> byte list option" where
  "extractScriptHash script =
     (if length script = 23 \<and>
         script ! 0 = OP_HASH160 \<and>
         script ! 1 = OP_DATA_20 \<and>
         script ! 22 = OP_EQUAL
      then Some (subslice script 2 22)
      else None)"

definition isScriptHashScript :: "byte list \<Rightarrow> bool" where
  "isScriptHashScript script = (extractScriptHash script \<noteq> None)"

subsection \<open>Multisig (standard.go, lines 120-216)\<close>

text \<open>
  \<open>pubKeys\<close> is \<open>nil\<close> when the keys are not asked for; \<open>nil\<close> and the empty
  slice are both the empty list here, no caller tells them apart.
\<close>

record multiSigDetails =
  requiredSigs :: int
  numPubKeys :: int
  pubKeys :: "byte list list"
  valid :: bool

text \<open>The zero value \<open>multiSigDetails{}\<close>.\<close>

definition noMultiSigDetails :: multiSigDetails where
  "noMultiSigDetails = \<lparr>requiredSigs = 0, numPubKeys = 0, pubKeys = [], valid = False\<rparr>"

text \<open>
  The loop \<open>for tokenizer.Next() { ... }\<close> of \<open>extractMultisigScriptDetails\<close>: it
  returns the tokenizer, the number of keys and the keys as they are when the loop is left,
  by \<open>break\<close> or because \<open>Next\<close> returned false.  Each round that goes on has moved
  the offset forward, which bounds the number of rounds.
\<close>

function pubKeyLoop ::
  "bool \<Rightarrow> ScriptTokenizer \<Rightarrow> int \<Rightarrow> byte list list \<Rightarrow> ScriptTokenizer \<times> int \<times> byte list list" where
  "pubKeyLoop extractPubKeys t n keys =
     (case Next t of (ok, t') \<Rightarrow>
        if \<not> ok then (t', n, keys)
        else if \<not> isStrictPubKeyEncoding (bytes (tk_data t')) then (t', n, keys)
        else pubKeyLoop extractPubKeys t' (n + 1)
               (if extractPubKeys then keys @ [bytes (tk_data t')] else keys))"
  by pat_completeness auto
termination
proof (relation "measure (\<lambda>(e, t, n, keys). length (tk_script t) - tk_offset t)")
  show "wf (measure (\<lambda>(e, t, n, keys). length (tk_script t) - tk_offset t))" by simp
next
  fix extractPubKeys :: bool and t :: ScriptTokenizer and n :: int and keys :: "byte list list"
    and ok t'
  assume nx: "(ok, t') = Next t" and ok: "\<not> \<not> ok"
  from nx ok have st: "Next t = (True, t')" by (cases "Next t") simp
  then have nd: "\<not> Done t"
    by (auto simp: Next_def split: if_splits)
  from st nd obtain op d k where dec: "decodeOp (drop (tk_offset t) (tk_script t)) = Some (op, d, k)"
    and t': "t' = t\<lparr>tk_offset := tk_offset t + k, tk_op := op, tk_data := d\<rparr>"
    by (auto simp: Next_def split: option.splits)
  from dec have "0 < k"
    by (auto simp: decodeOp_def decodePushData_def Let_def split: list.splits if_splits)
  moreover from nd have "tk_offset t < length (tk_script t)" by (simp add: Done_def)
  ultimately show "((extractPubKeys, t', n + 1,
                     if extractPubKeys then keys @ [bytes (tk_data t')] else keys),
                    extractPubKeys, t, n, keys)
      \<in> measure (\<lambda>(e, t, n, keys). length (tk_script t) - tk_offset t)"
    using t' by simp
qed

declare pubKeyLoop.simps [simp del]

definition extractMultisigScriptDetails :: "16 word \<Rightarrow> byte list \<Rightarrow> bool \<Rightarrow> multiSigDetails" where
  "extractMultisigScriptDetails scriptVersion script extractPubKeys =
     (if scriptVersion \<noteq> 0 then noMultiSigDetails
      else if length script < 3 \<or> script ! (length script - 1) \<noteq> OP_CHECKMULTISIG
      then noMultiSigDetails
      else case Next (MakeScriptTokenizer scriptVersion script) of (ok, tokenizer) \<Rightarrow>
        if \<not> ok \<or> \<not> isSmallInt (tk_op tokenizer) then noMultiSigDetails
        else case pubKeyLoop extractPubKeys tokenizer 0 [] of (tokenizer', n, keys) \<Rightarrow>
          if Done tokenizer' then noMultiSigDetails
          else if \<not> isSmallInt (tk_op tokenizer') \<or> asSmallInt (tk_op tokenizer') \<noteq> n
          then noMultiSigDetails
          else if int (length (tk_script tokenizer')) - int (tk_offset tokenizer') \<noteq> 1
          then noMultiSigDetails
          else \<lparr>requiredSigs = asSmallInt (tk_op tokenizer), numPubKeys = n,
                pubKeys = keys, valid = True\<rparr>)"

definition isMultisigScript :: "16 word \<Rightarrow> byte list \<Rightarrow> bool" where
  "isMultisigScript scriptVersion script =
     valid (extractMultisigScriptDetails scriptVersion script False)"

subsection \<open>Null data and stake scripts (standard.go, lines 19-22 and 436-593)\<close>

abbreviation (input) MaxDataCarrierSize :: nat where "MaxDataCarrierSize \<equiv> 256"

text \<open>
  The last return of \<open>isNullDataScript\<close> is a chain of \<open>&&\<close>: \<open>Done\<close>,
  \<open>Opcode\<close> and \<open>Data\<close> are read from the tokenizer as \<open>Next\<close> left it, and
  only when \<open>Next\<close> returned true.
\<close>

definition isNullDataScript :: "16 word \<Rightarrow> byte list \<Rightarrow> bool" where
  "isNullDataScript scriptVersion script =
     (if scriptVersion \<noteq> 0 then False
      else if length script < 1 \<or> script ! 0 \<noteq> OP_RETURN then False
      else if length script = 1 then True
      else case Next (MakeScriptTokenizer scriptVersion (drop 1 script)) of (ok, tokenizer) \<Rightarrow>
        ok \<and> Done tokenizer \<and>
        (isSmallInt (tk_op tokenizer) \<or> tk_op tokenizer \<le> OP_PUSHDATA4) \<and>
        length (bytes (tk_data tokenizer)) \<le> MaxDataCarrierSize)"

definition extractStakePubKeyHash :: "byte list \<Rightarrow> byte \<Rightarrow> byte list option" where
  "extractStakePubKeyHash script stakeOpcode =
     (if length script < 1 \<or> script ! 0 \<noteq> stakeOpcode then None
      else extractPubKeyHash (drop 1 script))"

definition extractStakeScriptHash :: "byte list \<Rightarrow> byte \<Rightarrow> byte list option" where
  "extractStakeScriptHash script stakeOpcode =
     (if length script < 1 \<or> script ! 0 \<noteq> stakeOpcode then None
      else extractScriptHash (drop 1 script))"

definition isStakeSubmissionScript :: "16 word \<Rightarrow> byte list \<Rightarrow> bool" where
  "isStakeSubmissionScript scriptVersion script =
     (if scriptVersion \<noteq> 0 then False
      else extractStakePubKeyHash script OP_SSTX \<noteq> None \<or>
           extractStakeScriptHash script OP_SSTX \<noteq> None)"

definition isStakeGen :: "parsedOpcode list \<Rightarrow> bool" where
  "isStakeGen pops =
     (if length pops = 6 \<and>
         opcode_value (pops ! 0) = OP_SSGEN \<and>
         opcode_value (pops ! 1) = OP_DUP \<and>
         opcode_value (pops ! 2) = OP_HASH160 \<and>
         opcode_value (pops ! 3) = OP_DATA_20 \<and>
         opcode_value (pops ! 4) = OP_EQUALVERIFY \<and>
         opcode_value (pops ! 5) = OP_CHECKSIG
      then True
      else if length pops = 4 \<and>
         opcode_value (pops ! 0) = OP_SSGEN \<and>
         opcode_value (pops ! 1) = OP_HASH160 \<and>
         opcode_value (pops ! 2) = OP_DATA_20 \<and>
         opcode_value (pops ! 3) = OP_EQUAL
      then True
      else False)"

definition isStakeRevocation :: "parsedOpcode list \<Rightarrow> bool" where
  "isStakeRevocation pops =
     (if length pops = 6 \<and>
         opcode_value (pops ! 0) = OP_SSRTX \<and>
         opcode_value (pops ! 1) = OP_DUP \<and>
         opcode_value (pops ! 2) = OP_HASH160 \<and>
         opcode_value (pops ! 3) = OP_DATA_20 \<and>
         opcode_value (pops ! 4) = OP_EQUALVERIFY \<and>
         opcode_value (pops ! 5) = OP_CHECKSIG
      then True
      else if length pops = 4 \<and>
         opcode_value (pops ! 0) = OP_SSRTX \<and>
         opcode_value (pops ! 1) = OP_HASH160 \<and>
         opcode_value (pops ! 2) = OP_DATA_20 \<and>
         opcode_value (pops ! 3) = OP_EQUAL
      then True
      else False)"

definition isSStxChange :: "parsedOpcode list \<Rightarrow> bool" where
  "isSStxChange pops =
     (if length pops = 6 \<and>
         opcode_value (pops ! 0) = OP_SSTXCHANGE \<and>
         opcode_value (pops ! 1) = OP_DUP \<and>
         opcode_value (pops ! 2) = OP_HASH160 \<and>
         opcode_value (pops ! 3) = OP_DATA_20 \<and>
         opcode_value (pops ! 4) = OP_EQUALVERIFY \<and>
         opcode_value (pops ! 5) = OP_CHECKSIG
      then True
      else if length pops = 4 \<and>
         opcode_value (pops ! 0) = OP_SSTXCHANGE \<and>
         opcode_value (pops ! 1) = OP_HASH160 \<and>
         opcode_value (pops ! 2) = OP_DATA_20 \<and>
         opcode_value (pops ! 3) = OP_EQUAL
      then True
      else False)"

subsection \<open>The classifier (standard.go, lines 595-650)\<close>

text \<open>
  The two \<open>switch\<close> statements have boolean cases: Go tests them from the top and runs
  the first that is true, so they are chains of \<open>if\<close>.
\<close>

definition typeOfScript :: "16 word \<Rightarrow> byte list \<Rightarrow> ScriptClass" where
  "typeOfScript scriptVersion script =
     (if scriptVersion \<noteq> 0 then NonStandardTy
      else if isPubKeyScript script then PubKeyTy
      else if isPubKeyAltScript script then PubkeyAltTy
      else if isPubKeyHashScript script then PubKeyHashTy
      else if isPubKeyHashAltScript script then PubkeyHashAltTy
      else if isScriptHashScript script then ScriptHashTy
      else if isMultisigScript scriptVersion script then MultiSigTy
      else if isNullDataScript scriptVersion script then NullDataTy
      else if isStakeSubmissionScript scriptVersion script then StakeSubmissionTy
      else case parseScript script of
        Inl err \<Rightarrow> NonStandardTy
      | Inr pops \<Rightarrow>
          if isStakeGen pops then StakeGenTy
          else if isStakeRevocation pops then StakeRevocationTy
          else if isSStxChange pops then StakeSubChangeTy
          else NonStandardTy)"

text \<open>
  Modelled from the spec: the constant \<open>DefaultScriptVersion\<close> is not among the sources;
  the only script version the spec defines is 0.
\<close>

abbreviation (input) DefaultScriptVersion :: "16 word" where "DefaultScriptVersion \<equiv> 0"

definition GetScriptClass :: "16 word \<Rightarrow> byte list \<Rightarrow> ScriptClass" where
  "GetScriptClass version script =
     (if version \<noteq> DefaultScriptVersion then NonStandardTy
      else typeOfScript version script)"

subsection \<open>Script information (standard.go, lines 652-867)\<close>

text \<open>
  \<open>expectedInputs\<close> switches on the class; the cases are distinct constants.  The
  multisig case reads \<open>pops[0]\<close>, which panics on an empty slice.  The result is a Go
  \<open>int\<close>; the values here are between -1 and 17.
\<close>

definition expectedInputs :: "parsedOpcode list \<Rightarrow> ScriptClass \<Rightarrow> ScriptClass \<Rightarrow> int outcome" where
  "expectedInputs pops class subclass =
     (if class = PubKeyTy then Value 1
      else if class = PubKeyHashTy then Value 2
      else if class = StakeSubmissionTy then
        (if subclass = PubKeyHashTy then Value 2 else Value 1)
      else if class = StakeGenTy then
        (if subclass = PubKeyHashTy then Value 2 else Value 1)
      else if class = StakeRevocationTy then
        (if subclass = PubKeyHashTy then Value 2 else Value 1)
      else if class = StakeSubChangeTy then
        (if subclass = PubKeyHashTy then Value 2 else Value 1)
      else if class = ScriptHashTy then Value 1
      else if class = MultiSigTy then
        (if pops = [] then Panic else Value (asSmallInt (opcode_value (pops ! 0))))
      else Value (- 1))"

record ScriptInfo =
  PkScriptClass :: ScriptClass
  NumInputs :: int
  ExpectedInputs :: int
  SigOps :: int

text \<open>
  Modelled from the spec: \<open>checkScriptParses\<close> and \<open>isPushOnly\<close> (script.go) are not
  among the sources.  The first returns the parse error of a script, if any; the second
  holds when every operation is a data push, which are the opcodes up to \<open>OP_16\<close>.
\<close>

definition checkScriptParses :: "16 word \<Rightarrow> byte list \<Rightarrow> error option" where
  "checkScriptParses scriptVersion script =
     (case parseScript script of Inl err \<Rightarrow> Some err | Inr pops \<Rightarrow> None)"

definition isPushOnly :: "parsedOpcode list \<Rightarrow> bool" where
  "isPushOnly pops = list_all (\<lambda>pop. opcode_value pop \<le> OP_16) pops"

text \<open>
  The test for the four stake classes, which \<open>GetStakeOutSubclass\<close> and
  \<open>CalcScriptInfo\<close> both write out.
\<close>

definition isStakeClass :: "ScriptClass \<Rightarrow> bool" where
  "isStakeClass class =
     (class = StakeSubmissionTy \<or> class = StakeGenTy \<or>
      class = StakeRevocationTy \<or> class = StakeSubChangeTy)"

text \<open>\<open>pkScript[1:]\<close> panics on an empty script.\<close>

definition GetStakeOutSubclass :: "byte list \<Rightarrow> ScriptClass outcome" where
  "GetStakeOutSubclass pkScript =
     (case checkScriptParses 0 pkScript of
        Some err \<Rightarrow> Error err
      | None \<Rightarrow>
          let class = typeOfScript 0 pkScript;
              isStake = isStakeClass class
          in if isStake then
               (if length pkScript < 1 then Panic else Value (typeOfScript 0 (drop 1 pkScript)))
             else Error ErrNotStakeOutput)"

text \<open>
  \<open>getSigOpCount\<close> (script.go) is not among the sources and the spec does not define
  the count, so it is the parameter \<open>getSigOpCount\<close> of \<open>CalcScriptInfo\<close>.
  \<open>sigPops[len(sigPops)-1]\<close> panics on an empty signature script.
\<close>

definition CalcScriptInfo ::
  "(parsedOpcode list \<Rightarrow> bool \<Rightarrow> int) \<Rightarrow> byte list \<Rightarrow> byte list \<Rightarrow> bool \<Rightarrow> ScriptInfo outcome" where
  "CalcScriptInfo getSigOpCount sigScript pkScript bip16 =
     (case parseScript sigScript of
        Inl err \<Rightarrow> Error err
      | Inr sigPops \<Rightarrow>
     (case parseScript pkScript of
        Inl err \<Rightarrow> Error err
      | Inr pkPops \<Rightarrow>
          let class = typeOfScript 0 pkScript in
          if \<not> isPushOnly sigPops then Error ErrNotPushOnly
          else
     (case (if isStakeClass class then GetStakeOutSubclass pkScript else Value 0) of
        Error err \<Rightarrow> Error err
      | Panic \<Rightarrow> Panic
      | Value subClass \<Rightarrow>
     (case expectedInputs pkPops class subClass of
        Error err \<Rightarrow> Error err
      | Panic \<Rightarrow> Panic
      | Value expected \<Rightarrow>
          if (class = ScriptHashTy \<or> subClass = ScriptHashTy) \<and> bip16 then
            (if sigPops = [] then Panic
             else
               let script = bytes (data (sigPops ! (length sigPops - 1))) in
               case parseScript script of
                 Inl err \<Rightarrow> Error err
               | Inr shPops \<Rightarrow>
                   let reedeemClass = typeOfScript 0 script in
                   (case expectedInputs shPops reedeemClass 0 of
                      Error err \<Rightarrow> Error err
                    | Panic \<Rightarrow> Panic
                    | Value shInputs \<Rightarrow>
                        Value \<lparr>PkScriptClass = class,
                               NumInputs = int (length sigPops),
                               ExpectedInputs =
                                 (if shInputs = - 1 then - 1 else expected + shInputs),
                               SigOps = getSigOpCount shPops True\<rparr>))
          else
            Value \<lparr>PkScriptClass = class,
                   NumInputs = int (length sigPops),
                   ExpectedInputs = expected,
                   SigOps = getSigOpCount pkPops True\<rparr>))))"

subsection \<open>The redeem script of a signature script (standard.go, lines 895-907)\<close>

text \<open>\<open>pops[len(pops)-1]\<close> panics when \<open>pops\<close> is empty.\<close>

definition MultisigRedeemScriptFromScriptSig :: "byte list \<Rightarrow> byte list option outcome" where
  "MultisigRedeemScriptFromScriptSig script =
     (case parseScript script of
        Inl err \<Rightarrow> Error err
      | Inr pops \<Rightarrow>
          if pops = [] then Panic
          else Value (data (pops ! (length pops - 1))))"

subsection \<open>The commitment push of a ticket (standard.go, lines 1209-1252)\<close>

text \<open>
  Modelled from the spec: the script builder (scriptbuilder.go) is not among the sources.
  \<open>AddOp\<close> appends an opcode; \<open>AddData\<close> appends the canonical push of the data: a
  small-integer opcode for a single byte of value 0 to 16, \<open>OP_1NEGATE\<close> for the byte
  0x81, \<open>OP_DATA_n\<close> for up to 75 bytes, and the shortest \<open>OP_PUSHDATA\<close> with its
  little-endian length above that.  The size limits of the builder are not modelled: the
  only data pushed below has 30 bytes.
\<close>

type_synonym ScriptBuilder = "byte list"

definition NewScriptBuilder :: ScriptBuilder where
  "NewScriptBuilder = []"

definition AddOp :: "ScriptBuilder \<Rightarrow> byte \<Rightarrow> ScriptBuilder" where
  "AddOp b opcode = b @ [opcode]"

definition AddData :: "ScriptBuilder \<Rightarrow> byte list \<Rightarrow> ScriptBuilder" where
  "AddData b d =
     (let dataLen = length d in
      if dataLen = 0 \<or> (dataLen = 1 \<and> d ! 0 = 0) then b @ [OP_0]
      else if dataLen = 1 \<and> d ! 0 \<le> 16 then b @ [(OP_1 - 1) + d ! 0]
      else if dataLen = 1 \<and> d ! 0 = 0x81 then b @ [OP_1NEGATE]
      else if dataLen < 76 then b @ [(OP_DATA_1 - 1) + of_nat dataLen] @ d
      else if dataLen \<le> 0xff then b @ [OP_PUSHDATA1, of_nat dataLen] @ d
      else if dataLen \<le> 0xffff
        then b @ [OP_PUSHDATA2, of_nat dataLen, of_nat (dataLen div 256)] @ d
      else b @ [OP_PUSHDATA4, of_nat dataLen, of_nat (dataLen div 256),
                of_nat (dataLen div 65536), of_nat (dataLen div 16777216)] @ d)"

definition Script :: "ScriptBuilder \<Rightarrow> error + byte list" where
  "Script b = Inr b"

text \<open>
  Modelled from the spec: the address types (package dcrutil) are not among the sources.
  An address is a pubkey-hash address with its 20-byte hash and signature scheme, a
  script-hash address with its 20-byte hash, or some other value of the interface (a raw
  public key, or the \<open>nil\<close> interface); the first two are pointers, \<open>None\<close> when
  \<open>nil\<close>.
\<close>

datatype Address =
    AddressPubKeyHash "(byte list \<times> SignatureType) option"
  | AddressScriptHash "byte list option"
  | AddressOther

text \<open>
  \<open>binary.LittleEndian.PutUint64\<close> and \<open>PutUint16\<close> write the bytes of a number, the
  least significant first; \<open>copy(dst[lo:hi], src)\<close> overwrites the bytes of
  \<open>dst\<close> from \<open>lo\<close> with those of \<open>src\<close>, as many as fit before \<open>hi\<close>.
\<close>

definition PutUint64 :: "64 word \<Rightarrow> byte list" where
  "PutUint64 v =
     [ucast v, ucast (drop_bit 8 v), ucast (drop_bit 16 v), ucast (drop_bit 24 v),
      ucast (drop_bit 32 v), ucast (drop_bit 40 v), ucast (drop_bit 48 v),
      ucast (drop_bit 56 v)]"

definition PutUint16 :: "16 word \<Rightarrow> byte list" where
  "PutUint16 v = [ucast v, ucast (drop_bit 8 v)]"

definition copy_to :: "byte list \<Rightarrow> nat \<Rightarrow> nat \<Rightarrow> byte list \<Rightarrow> byte list" where
  "copy_to dst lo hi src =
     (let n = min (hi - lo) (length src) in take lo dst @ take n src @ drop (lo + n) dst)"

text \<open>
  The amount is a \<open>dcrutil.Amount\<close>, an \<open>int64\<close>; \<open>uint64(amount)\<close> keeps its
  64 bits.  The type switch yields the script type and the hash, or the error.
\<close>

definition GenerateSStxAddrPush :: "Address \<Rightarrow> 64 word \<Rightarrow> 16 word \<Rightarrow> error + byte list" where
  "GenerateSStxAddrPush addr amount limits =
     (case (case addr of
              AddressPubKeyHash None \<Rightarrow> Inl ErrUnsupportedAddress
            | AddressPubKeyHash (Some (hash, dsa)) \<Rightarrow>
                if dsa \<noteq> STEcdsaSecp256k1 then Inl ErrUnsupportedAddress
                else Inr (PubKeyHashTy, hash)
            | AddressScriptHash None \<Rightarrow> Inl ErrUnsupportedAddress
            | AddressScriptHash (Some hash) \<Rightarrow> Inr (ScriptHashTy, hash)
            | AddressOther \<Rightarrow> Inl ErrUnsupportedAddress) of
        Inl err \<Rightarrow> Inl err
      | Inr (scriptType, hash) \<Rightarrow>
          let adBytes0 = replicate (20 + 8 + 2) 0;
              adBytes1 = copy_to adBytes0 0 20 hash;
              adBytes2 = copy_to adBytes1 20 28 (PutUint64 amount);
              adBytes3 = copy_to adBytes2 28 30 (PutUint16 limits);
              adBytes = (if scriptType = ScriptHashTy
                         then adBytes3[27 := adBytes3 ! 27 OR push_bit 7 1]
                         else adBytes3)
          in Script (AddData (AddOp NewScriptBuilder OP_RETURN) adBytes))"

subsection \<open>Atomic swap contracts (standard.go, lines 1631-1711)\<close>









subsection \<open>The staging package stdscript (scriptv0.go)\<close>

text \<open>
  Modelled from the spec: \<open>txscript.IsSmallInt\<close> and \<open>txscript.AsSmallInt\<close> are the
  exported names of the two small-integer functions, and the script types of stdscript are
  declared in a file that is not among the sources.
\<close>

definition IsSmallInt :: "byte \<Rightarrow> bool" where
  "IsSmallInt op = isSmallInt op"

definition AsSmallInt :: "byte \<Rightarrow> int" where
  "AsSmallInt op = asSmallInt op"

datatype ScriptType =
    STNonStandard
  | STPubKeyEcdsaSecp256k1
  | STPubKeyEd25519
  | STPubKeySchnorrSecp256k1

definition ExtractCompressedPubKeyV0 :: "byte list \<Rightarrow> byte list option" where
  "ExtractCompressedPubKeyV0 script =
     (if length script = 35 \<and>
         script ! 34 = OP_CHECKSIG \<and>
         script ! 0 = OP_DATA_33 \<and>
         (script ! 1 = 0x02 \<or> script ! 1 = 0x03)
      then Some (subslice script 1 34)
      else None)"

definition ExtractUncompressedPubKeyV0 :: "byte list \<Rightarrow> byte list option" where
  "ExtractUncompressedPubKeyV0 script =
     (if length script = 67 \<and>
         script ! 66 = OP_CHECKSIG \<and>
         script ! 0 = OP_DATA_65 \<and>
         script ! 1 = 0x04
      then Some (subslice script 1 66)
      else None)"

definition ExtractPubKeyV0 :: "byte list \<Rightarrow> byte list option" where
  "ExtractPubKeyV0 script =
     (case ExtractCompressedPubKeyV0 script of
        Some pubKey \<Rightarrow> Some pubKey
      | None \<Rightarrow> ExtractUncompressedPubKeyV0 script)"

definition IsPubKeyScriptV0 :: "byte list \<Rightarrow> bool" where
  "IsPubKeyScriptV0 script = (ExtractPubKeyV0 script \<noteq> None)"

definition ExtractPubKeyAltDetailsV0 :: "byte list \<Rightarrow> byte list option \<times> SignatureType" where
  "ExtractPubKeyAltDetailsV0 script =
     (if length script < 3 \<or> script ! (length script - 1) \<noteq> OP_CHECKSIGALT then (None, 0)
      else if length script = 35 \<and> script ! 0 = OP_DATA_32 \<and>
              IsSmallInt (script ! 33) \<and>
              AsSmallInt (script ! 33) = STEd25519
      then (Some (subslice script 1 33), STEd25519)
      else if length script = 36 \<and> script ! 0 = OP_DATA_33 \<and>
              IsSmallInt (script ! 34) \<and>
              AsSmallInt (script ! 34) = STSchnorrSecp256k1 \<and>
              IsStrictCompressedPubKeyEncoding (subslice script 1 34)
      then (Some (subslice script 1 34), STSchnorrSecp256k1)
      else (None, 0))"

definition IsPubKeyEd25519ScriptV0 :: "byte list \<Rightarrow> bool" where
  "IsPubKeyEd25519ScriptV0 script =
     (case ExtractPubKeyAltDetailsV0 script of
        (pk, sigType) \<Rightarrow> pk \<noteq> None \<and> sigType = STEd25519)"

definition IsPubKeySchnorrSecp256k1ScriptV0 :: "byte list \<Rightarrow> bool" where
  "IsPubKeySchnorrSecp256k1ScriptV0 script =
     (case ExtractPubKeyAltDetailsV0 script of
        (pk, sigType) \<Rightarrow> pk \<noteq> None \<and> sigType = STSchnorrSecp256k1)"

definition DetermineScriptTypeV0 :: "byte list \<Rightarrow> ScriptType" where
  "DetermineScriptTypeV0 script =
     (if IsPubKeyScriptV0 script then STPubKeyEcdsaSecp256k1
      else if IsPubKeyEd25519ScriptV0 script then STPubKeyEd25519
      else if IsPubKeySchnorrSecp256k1ScriptV0 script then STPubKeySchnorrSecp256k1
      else STNonStandard)"

subsection \<open>Predicates used to state the properties\<close>


text \<open>
  None of the eight checks that \<open>typeOfScript\<close> makes on the bytes of a script holds.
\<close>

definition noByteTemplate :: "byte list \<Rightarrow> bool" where
  "noByteTemplate script =
     (\<not> isPubKeyScript script \<and> \<not> isPubKeyAltScript script \<and>
      \<not> isPubKeyHashScript script \<and> \<not> isPubKeyHashAltScript script \<and>
      \<not> isScriptHashScript script \<and> \<not> isMultisigScript 0 script \<and>
      \<not> isNullDataScript 0 script \<and> \<not> isStakeSubmissionScript 0 script)"

subsection \<open>Example scripts\<close>

text \<open>
  Scripts of the test tables of standard_test.go and scripts built after them, on which the
  theorems below are instantiated.
\<close>

definition p2pkh :: "byte list" where
  "p2pkh = [OP_DUP, OP_HASH160, OP_DATA_20,
     0x66, 0x0d, 0x4e, 0xf3, 0xa7, 0x43, 0xe3, 0xe6, 0x96, 0xad,
     0x99, 0x03, 0x64, 0xe5, 0x55, 0xc2, 0x71, 0xad, 0x50, 0x4b,
     OP_EQUALVERIFY, OP_CHECKSIG]"

definition ssgen_p2sh :: "byte list" where
  "ssgen_p2sh = [OP_SSGEN, OP_HASH160, OP_DATA_20,
     0x43, 0x3e, 0xc2, 0xac, 0x1f, 0xfa, 0x1b, 0x7b, 0x7d, 0x02,
     0x7f, 0x56, 0x45, 0x29, 0xc5, 0x71, 0x97, 0xf9, 0xae, 0x88, OP_EQUAL]"

definition p2pk_ed25519 :: "byte list" where
  "p2pk_ed25519 = [OP_DATA_32,
     0x11, 0x12, 0x13, 0x14, 0x15, 0x16, 0x17, 0x18, 0x19, 0x1a, 0x1b, 0x1c, 0x1d, 0x1e, 0x1f, 0x20,
     0x21, 0x22, 0x23, 0x24, 0x25, 0x26, 0x27, 0x28, 0x29, 0x2a, 0x2b, 0x2c, 0x2d, 0x2e, 0x2f, 0x30,
     OP_1, OP_CHECKSIGALT]"

definition msig_1of1 :: "byte list" where
  "msig_1of1 = [OP_1, OP_DATA_33,
      0x02, 0x32, 0xab, 0xdc, 0x89, 0x3e, 0x7f, 0x06, 0x31, 0x36, 0x4d, 0x7f, 0xd0, 0x1c, 0xb3, 0x3d,
      0x24, 0xda, 0x45, 0x32, 0x9a, 0x00, 0x35, 0x7b, 0x3a, 0x78, 0x86, 0x21, 0x1a, 0xb4, 0x14, 0xd5,
      0x5a, OP_1, OP_CHECKMULTISIG]"


definition zero_hash :: "byte list" where
  "zero_hash = [0, 0, 0, 0, 0, 0, 0, 0, 0, 0, 0, 0, 0, 0, 0, 0, 0, 0, 0, 0]"

definition sstx_push_zero :: "byte list" where
  "sstx_push_zero =
     [OP_RETURN, OP_DATA_30,
      0, 0, 0, 0, 0, 0, 0, 0, 0, 0, 0, 0, 0, 0, 0, 0, 0, 0, 0, 0,
      0, 0, 0, 0, 0, 0, 0, 0x80,
      0, 0]"

section \<open>Facts about the decoding of scripts\<close>

lemmas tok_eval = Next_def Done_def MakeScriptTokenizer_def decodeOp_def decodePushData_def
  isSmallInt_def asSmallInt_def isStrictPubKeyEncoding_def bytes_def

lemmas match_eval = isPubKeyScript_def extractPubKey_def extractCompressedPubKey_def
  extractUncompressedPubKey_def isPubKeyAltScript_def extractPubKeyAltDetails_def
  isPubKeyHashScript_def extractPubKeyHash_def isPubKeyHashAltScript_def
  extractPubKeyHashAltDetails_def isStandardAltSignatureType_def isScriptHashScript_def
  extractScriptHash_def subslice_def

lemmas class_eval = typeOfScript_def isMultisigScript_def extractMultisigScriptDetails_def
  noMultiSigDetails_def isNullDataScript_def isStakeSubmissionScript_def
  extractStakePubKeyHash_def extractStakeScriptHash_def isStakeGen_def isStakeRevocation_def
  isSStxChange_def

lemma decodePushData_bounds:
  assumes "decodePushData op k rest = Some (op', d, n)"
  shows "0 < n \<and> n \<le> Suc (length rest) \<and> op' = op"
proof -
  from assms have a: "k \<le> length rest" "le_nat (take k rest) \<le> length rest - k"
    and n: "n = 1 + k + le_nat (take k rest)" and op: "op' = op"
    by (auto simp: decodePushData_def Let_def split: if_splits)
  from a n op show ?thesis by simp
qed

lemma decodeOp_bounds:
  assumes "decodeOp s = Some (op, d, n)"
  shows "0 < n \<and> n \<le> length s \<and> s \<noteq> [] \<and> op = s ! 0"
  using assms
  by (auto simp: decodeOp_def split: list.splits if_splits dest: decodePushData_bounds)

lemma parseScript_Nil: "parseScript [] = Inr []"
  by (simp add: parseScript.simps)

lemma parseScript_empty_iff: "(parseScript s = Inr []) = (s = [])"
  by (subst parseScript.simps) (auto split: option.splits sum.splits)

lemma parseScript_step:
  assumes "decodeOp s = Some (op, d, n)"
  shows "parseScript s =
           (case parseScript (drop n s) of
              Inl e \<Rightarrow> Inl e
            | Inr pops \<Rightarrow> Inr (\<lparr>opcode_value = op, data = d\<rparr> # pops))"
proof -
  from assms have "s \<noteq> []" by (simp add: decodeOp_bounds)
  with assms show ?thesis by (subst parseScript.simps) simp
qed

lemma parseScript_malformed:
  assumes "s \<noteq> []" "decodeOp s = None"
  shows "parseScript s = Inl ErrMalformedPush"
  using assms by (subst parseScript.simps) simp

lemma parseScript_first:
  assumes "parseScript (b # rest) = Inr pops"
  shows "pops \<noteq> [] \<and> opcode_value (pops ! 0) = b"
proof (cases "decodeOp (b # rest)")
  case None
  with assms show ?thesis by (simp add: parseScript_malformed)
next
  case (Some r)
  obtain op d n where r: "r = (op, d, n)" by (cases r) auto
  with Some have dec: "decodeOp (b # rest) = Some (op, d, n)" by simp
  from decodeOp_bounds [OF dec] have "op = b" by simp
  with assms parseScript_step [OF dec] show ?thesis
    by (auto split: sum.splits)
qed

lemma Next_True:
  assumes "Next t = (True, t')"
  shows "\<exists>op d n. decodeOp (drop (tk_offset t) (tk_script t)) = Some (op, d, n) \<and>
           t' = t\<lparr>tk_offset := tk_offset t + n, tk_op := op, tk_data := d\<rparr> \<and>
           tk_err t = None \<and> tk_offset t < length (tk_script t)"
  using assms
  by (auto simp: Next_def Done_def split: if_splits option.splits)

lemma Next_False:
  assumes "Next t = (False, t')"
  shows "Done t'"
  using assms
  by (auto simp: Next_def Done_def split: if_splits option.splits)

lemma Next_decoded:
  assumes "tk_err t = None" "decodeOp (drop (tk_offset t) (tk_script t)) = Some (op, d, n)"
  shows "Next t = (True, t\<lparr>tk_offset := tk_offset t + n, tk_op := op, tk_data := d\<rparr>)"
proof -
  from decodeOp_bounds [OF assms(2)] have "tk_offset t < length (tk_script t)" by simp
  with assms show ?thesis by (simp add: Next_def Done_def)
qed



section \<open>The multisig matcher and the parser\<close>

lemma pubKeyLoop_parse:
  assumes "pubKeyLoop ex t n keys = (t2, n2, keys2)" "\<not> Done t2" "tk_err t = None"
    "parseScript (drop (tk_offset t2) (tk_script t2)) = Inr rest"
  shows "tk_script t2 = tk_script t \<and> n \<le> n2 \<and>
         (\<exists>pre. parseScript (drop (tk_offset t) (tk_script t)) = Inr (pre @ rest) \<and>
                int (length pre) = n2 - n + 1)"
  using assms
proof (induction ex t n keys rule: pubKeyLoop.induct)
  case (1 ex t n keys)
  obtain ok t' where nx: "Next t = (ok, t')" by (cases "Next t") auto
  show ?case
  proof (cases ok)
    case False
    with nx have "pubKeyLoop ex t n keys = (t', n, keys)"
      by (subst pubKeyLoop.simps) simp
    with 1(2) have "t2 = t'" by simp
    with nx False 1(3) show ?thesis by (simp add: Next_False)
  next
    case True
    with nx Next_True [of t t'] obtain op d k where
      dec: "decodeOp (drop (tk_offset t) (tk_script t)) = Some (op, d, k)" and
      t': "t' = t\<lparr>tk_offset := tk_offset t + k, tk_op := op, tk_data := d\<rparr>"
      by auto
    note step = parseScript_step [OF dec]
    have dr: "drop k (drop (tk_offset t) (tk_script t)) = drop (tk_offset t') (tk_script t')"
      using t' by (simp add: add.commute)
    show ?thesis
    proof (cases "isStrictPubKeyEncoding (bytes (tk_data t'))")
      case False
      with nx True have "pubKeyLoop ex t n keys = (t', n, keys)"
        by (subst pubKeyLoop.simps) simp
      with 1(2) have eq: "t2 = t'" "n2 = n" by simp_all
      from eq 1(5) dr step
      have "parseScript (drop (tk_offset t) (tk_script t)) =
              Inr ([\<lparr>opcode_value = op, data = d\<rparr>] @ rest)"
        by simp
      with eq t' show ?thesis by auto
    next
      case strict: True
      let ?keys = "if ex then keys @ [bytes (tk_data t')] else keys"
      from nx True strict have "pubKeyLoop ex t n keys = pubKeyLoop ex t' (n + 1) ?keys"
        by (subst pubKeyLoop.simps) simp
      with 1(2) have rec: "pubKeyLoop ex t' (n + 1) ?keys = (t2, n2, keys2)" by simp
      from 1(4) t' have err: "tk_err t' = None" by simp
      from 1(1) [OF nx [symmetric] _ _ rec 1(3) err 1(5)] True strict
      obtain pre where scr: "tk_script t2 = tk_script t'" and le: "n + 1 \<le> n2" and
        pre: "parseScript (drop (tk_offset t') (tk_script t')) = Inr (pre @ rest)" and
        len: "int (length pre) = n2 - (n + 1) + 1"
        by auto
      from pre dr step
      have "parseScript (drop (tk_offset t) (tk_script t)) =
              Inr ((\<lparr>opcode_value = op, data = d\<rparr> # pre) @ rest)"
        by simp
      moreover have "int (length (\<lparr>opcode_value = op, data = d\<rparr> # pre)) = n2 - n + 1"
        using len by simp
      ultimately show ?thesis using scr t' le by (intro conjI exI) auto
    qed
  qed
qed

lemma parseScript_single_plain:
  assumes "\<not> (OP_DATA_1 \<le> b \<and> b \<le> OP_PUSHDATA4)"
  shows "parseScript [b] = Inr [\<lparr>opcode_value = b, data = None\<rparr>]"
proof -
  from assms have "decodeOp [b] = Some (b, None, 1)"
    by (auto simp: decodeOp_def word_le_nat_alt)
  from parseScript_step [OF this] show ?thesis by (simp add: parseScript_Nil)
qed

lemma pubKeyLoop_script:
  "pubKeyLoop ex t n keys = (t2, n2, keys2) \<Longrightarrow> tk_script t2 = tk_script t"
proof (induction ex t n keys rule: pubKeyLoop.induct)
  case (1 ex t n keys)
  obtain ok t' where nx: "Next t = (ok, t')" by (cases "Next t") auto
  then have scr: "tk_script t' = tk_script t"
    by (auto simp: Next_def split: if_splits option.splits)
  show ?case
  proof (cases "ok \<and> isStrictPubKeyEncoding (bytes (tk_data t'))")
    case False
    with nx 1(2) have "t2 = t'"
      by (subst (asm) pubKeyLoop.simps) (auto split: if_splits)
    with scr show ?thesis by simp
  next
    case True
    let ?keys = "if ex then keys @ [bytes (tk_data t')] else keys"
    from nx True 1(2) have rec: "pubKeyLoop ex t' (n + 1) ?keys = (t2, n2, keys2)"
      by (subst (asm) pubKeyLoop.simps) simp
    from 1(1) [OF nx [symmetric] _ _ rec] True scr show ?thesis by simp
  qed
qed

lemma drop_last_one:
  assumes "Suc i = length s"
  shows "drop i s = [s ! i]"
proof -
  from assms have "i < length s" by simp
  then have "drop i s = s ! i # drop (Suc i) s" by (rule Cons_nth_drop_Suc [symmetric])
  with assms show ?thesis by simp
qed

lemma multisig_valid_parse:
  assumes "valid (extractMultisigScriptDetails 0 script ex)"
  shows "\<exists>pops. parseScript script = Inr pops \<and>
           int (length pops) = numPubKeys (extractMultisigScriptDetails 0 script ex) + 3 \<and>
           0 \<le> numPubKeys (extractMultisigScriptDetails 0 script ex) \<and>
           requiredSigs (extractMultisigScriptDetails 0 script ex) =
             asSmallInt (opcode_value (pops ! 0))"
proof -
  let ?t0 = "MakeScriptTokenizer 0 script"
  obtain ok t1 where nx: "Next ?t0 = (ok, t1)" by (cases "Next ?t0") auto
  obtain t2 n keys where lp: "pubKeyLoop ex t1 0 [] = (t2, n, keys)"
    by (cases "pubKeyLoop ex t1 0 []") auto
  from assms nx lp have
    lst: "script ! (length script - 1) = OP_CHECKMULTISIG" and
    ok: "ok" and nd: "\<not> Done t2" and
    one: "int (length (tk_script t2)) - int (tk_offset t2) = 1" and
    det: "extractMultisigScriptDetails 0 script ex =
            \<lparr>requiredSigs = asSmallInt (tk_op t1), numPubKeys = n, pubKeys = keys, valid = True\<rparr>"
    by (auto simp: extractMultisigScriptDetails_def noMultiSigDetails_def split: if_splits)
  from nx ok Next_True [of ?t0 t1] obtain op d k where
    dec: "decodeOp script = Some (op, d, k)" and
    t1: "t1 = ?t0\<lparr>tk_offset := k, tk_op := op, tk_data := d\<rparr>"
    by (auto simp: MakeScriptTokenizer_def)
  from t1 have err1: "tk_err t1 = None" and scr1: "tk_script t1 = script"
    and off1: "tk_offset t1 = k" and op1: "tk_op t1 = op"
    by (simp_all add: MakeScriptTokenizer_def)
  from pubKeyLoop_script [OF lp] scr1 have scr2: "tk_script t2 = script" by simp
  from one scr2 have suc: "Suc (tk_offset t2) = length script" by simp
  then have idx: "tk_offset t2 = length script - 1" by simp
  from drop_last_one [OF suc] lst idx
  have dl: "drop (tk_offset t2) (tk_script t2) = [OP_CHECKMULTISIG]" using scr2 by simp
  have pl: "parseScript (drop (tk_offset t2) (tk_script t2)) =
              Inr [\<lparr>opcode_value = OP_CHECKMULTISIG, data = None\<rparr>]"
    unfolding dl by (rule parseScript_single_plain) simp
  from pubKeyLoop_parse [OF lp nd err1 pl] scr1 off1 obtain pre where
    n0: "0 \<le> n" and
    pre: "parseScript (drop k script) = Inr (pre @ [\<lparr>opcode_value = OP_CHECKMULTISIG, data = None\<rparr>])"
    and len: "int (length pre) = n + 1"
    by auto
  from parseScript_step [OF dec] pre
  have ps: "parseScript script =
          Inr (\<lparr>opcode_value = op, data = d\<rparr> # pre @ [\<lparr>opcode_value = OP_CHECKMULTISIG, data = None\<rparr>])"
    by simp
  show ?thesis
    unfolding det using ps len n0 op1 by simp
qed

section \<open>The classifier\<close>

lemma typeOfScript_class_iff:
  "(typeOfScript 0 script = PubKeyTy) = isPubKeyScript script"
  "(typeOfScript 0 script = PubkeyAltTy) = (\<not> isPubKeyScript script \<and> isPubKeyAltScript script)"
  "(typeOfScript 0 script = MultiSigTy) =
     (\<not> isPubKeyScript script \<and> \<not> isPubKeyAltScript script \<and> \<not> isPubKeyHashScript script \<and>
      \<not> isPubKeyHashAltScript script \<and> \<not> isScriptHashScript script \<and> isMultisigScript 0 script)"
  by (simp_all add: typeOfScript_def split: sum.splits)

lemma p2pkh_class: "typeOfScript 0 p2pkh = PubKeyHashTy"
  by (simp add: p2pkh_def typeOfScript_def match_eval)

lemma ssgen_p2sh_noByteTemplate: "noByteTemplate ssgen_p2sh"
  by (simp add: noByteTemplate_def ssgen_p2sh_def match_eval class_eval tok_eval)

lemma ssgen_p2sh_parse: "\<exists>d. parseScript ssgen_p2sh = Inr [\<lparr>opcode_value = OP_SSGEN, data = None\<rparr>,
   \<lparr>opcode_value = OP_HASH160, data = None\<rparr>, \<lparr>opcode_value = OP_DATA_20, data = Some d\<rparr>,
   \<lparr>opcode_value = OP_EQUAL, data = None\<rparr>]"
  by (simp add: ssgen_p2sh_def parseScript.simps decodeOp_def)

text \<open>
  Claim C1.  For script version 0 the classifier tests the templates in the order
  pay-to-pubkey, pay-to-pubkey-alt, pay-to-pubkey-hash, pay-to-pubkey-hash-alt,
  pay-to-script-hash, multisig, null data, stake submission, and the first that matches
  gives the class, whatever the later ones say.  When none matches the script is parsed: a
  parse error gives NonStandard, otherwise stake generation, stake revocation and stake
  change are tested in that order on the decoded operations, and NonStandard is the class
  when none of them matches.
\<close>

theorem typeOfScript_priority:
  "(isPubKeyScript script \<longrightarrow> typeOfScript 0 script = PubKeyTy) \<and>
   (\<not> isPubKeyScript script \<and> isPubKeyAltScript script \<longrightarrow>
      typeOfScript 0 script = PubkeyAltTy) \<and>
   (\<not> isPubKeyScript script \<and> \<not> isPubKeyAltScript script \<and> isPubKeyHashScript script \<longrightarrow>
      typeOfScript 0 script = PubKeyHashTy) \<and>
   (\<not> isPubKeyScript script \<and> \<not> isPubKeyAltScript script \<and> \<not> isPubKeyHashScript script \<and>
    isPubKeyHashAltScript script \<longrightarrow>
      typeOfScript 0 script = PubkeyHashAltTy) \<and>
   (\<not> isPubKeyScript script \<and> \<not> isPubKeyAltScript script \<and> \<not> isPubKeyHashScript script \<and>
    \<not> isPubKeyHashAltScript script \<and> isScriptHashScript script \<longrightarrow>
      typeOfScript 0 script = ScriptHashTy) \<and>
   (\<not> isPubKeyScript script \<and> \<not> isPubKeyAltScript script \<and> \<not> isPubKeyHashScript script \<and>
    \<not> isPubKeyHashAltScript script \<and> \<not> isScriptHashScript script \<and>
    isMultisigScript 0 script \<longrightarrow>
      typeOfScript 0 script = MultiSigTy) \<and>
   (\<not> isPubKeyScript script \<and> \<not> isPubKeyAltScript script \<and> \<not> isPubKeyHashScript script \<and>
    \<not> isPubKeyHashAltScript script \<and> \<not> isScriptHashScript script \<and>
    \<not> isMultisigScript 0 script \<and> isNullDataScript 0 script \<longrightarrow>
      typeOfScript 0 script = NullDataTy) \<and>
   (\<not> isPubKeyScript script \<and> \<not> isPubKeyAltScript script \<and> \<not> isPubKeyHashScript script \<and>
    \<not> isPubKeyHashAltScript script \<and> \<not> isScriptHashScript script \<and>
    \<not> isMultisigScript 0 script \<and> \<not> isNullDataScript 0 script \<and>
    isStakeSubmissionScript 0 script \<longrightarrow>
      typeOfScript 0 script = StakeSubmissionTy) \<and>
   (noByteTemplate script \<and> parseScript script = Inl err \<longrightarrow>
      typeOfScript 0 script = NonStandardTy) \<and>
   (noByteTemplate script \<and> parseScript script = Inr pops \<and> isStakeGen pops \<longrightarrow>
      typeOfScript 0 script = StakeGenTy) \<and>
   (noByteTemplate script \<and> parseScript script = Inr pops \<and> \<not> isStakeGen pops \<and>
    isStakeRevocation pops \<longrightarrow>
      typeOfScript 0 script = StakeRevocationTy) \<and>
   (noByteTemplate script \<and> parseScript script = Inr pops \<and> \<not> isStakeGen pops \<and>
    \<not> isStakeRevocation pops \<and> isSStxChange pops \<longrightarrow>
      typeOfScript 0 script = StakeSubChangeTy) \<and>
   (noByteTemplate script \<and> parseScript script = Inr pops \<and> \<not> isStakeGen pops \<and>
    \<not> isStakeRevocation pops \<and> \<not> isSStxChange pops \<longrightarrow>
      typeOfScript 0 script = NonStandardTy)"
  unfolding noByteTemplate_def
  by (intro conjI impI; simp add: typeOfScript_def)

theorem typeOfScript_priority_witness:
  "noByteTemplate ssgen_p2sh \<and> typeOfScript 0 ssgen_p2sh = StakeGenTy \<and>
   \<not> isPubKeyScript p2pkh \<and> \<not> isPubKeyAltScript p2pkh \<and> isPubKeyHashScript p2pkh \<and>
   typeOfScript 0 p2pkh = PubKeyHashTy \<and>
   noByteTemplate [OP_DATA_5, 1, 2, 3, 4] \<and>
   parseScript [OP_DATA_5, 1, 2, 3, 4] = Inl ErrMalformedPush \<and>
   typeOfScript 0 [OP_DATA_5, 1, 2, 3, 4] = NonStandardTy"
proof -
  obtain pops where p: "parseScript ssgen_p2sh = Inr pops" and g: "isStakeGen pops"
    using ssgen_p2sh_parse by (auto simp: isStakeGen_def)
  have "noByteTemplate ssgen_p2sh \<and> parseScript ssgen_p2sh = Inr pops \<and> isStakeGen pops \<longrightarrow>
        typeOfScript 0 ssgen_p2sh = StakeGenTy"
    using typeOfScript_priority [of ssgen_p2sh ErrMalformedPush pops]
    by (elim conjE) assumption
  with ssgen_p2sh_noByteTemplate p g have gen: "typeOfScript 0 ssgen_p2sh = StakeGenTy"
    by simp
  have h: "\<not> isPubKeyScript p2pkh \<and> \<not> isPubKeyAltScript p2pkh \<and> isPubKeyHashScript p2pkh"
    by (simp add: p2pkh_def match_eval)
  have "\<not> isPubKeyScript p2pkh \<and> \<not> isPubKeyAltScript p2pkh \<and> isPubKeyHashScript p2pkh \<longrightarrow>
        typeOfScript 0 p2pkh = PubKeyHashTy"
    using typeOfScript_priority [of p2pkh ErrMalformedPush "[]"]
    by (elim conjE) assumption
  with h have pkh: "typeOfScript 0 p2pkh = PubKeyHashTy" by simp
  let ?bad = "[OP_DATA_5, 1, 2, 3, 4] :: byte list"
  have n: "noByteTemplate ?bad"
    by (simp add: noByteTemplate_def match_eval class_eval tok_eval)
  have e: "parseScript ?bad = Inl ErrMalformedPush"
    by (simp add: parseScript.simps decodeOp_def)
  have "noByteTemplate ?bad \<and> parseScript ?bad = Inl ErrMalformedPush \<longrightarrow>
        typeOfScript 0 ?bad = NonStandardTy"
    using typeOfScript_priority [of ?bad ErrMalformedPush "[]"]
    by (elim conjE) assumption
  with n e have bad: "typeOfScript 0 ?bad = NonStandardTy" by simp
  from ssgen_p2sh_noByteTemplate gen h pkh n e bad show ?thesis by simp
qed

text \<open>
  Claim C2.  For every script version other than 0 and every byte string,
  \<open>GetScriptClass\<close> and \<open>typeOfScript\<close> return NonStandard: the bytes are not
  looked at, also when they are a standard script of version 0.
\<close>

theorem nonzero_version_is_nonstandard:
  assumes "version \<noteq> 0"
  shows "GetScriptClass version script = NonStandardTy \<and>
         typeOfScript version script = NonStandardTy"
  using assms by (simp add: GetScriptClass_def typeOfScript_def)

theorem nonzero_version_is_nonstandard_witness:
  "GetScriptClass 1 p2pkh = NonStandardTy \<and> typeOfScript 1 p2pkh = NonStandardTy \<and>
   typeOfScript 0 p2pkh = PubKeyHashTy"
  using nonzero_version_is_nonstandard [of 1 p2pkh] p2pkh_class by simp

section \<open>The staging extractors\<close>

lemma p2pk_ed25519_staging: "DetermineScriptTypeV0 p2pk_ed25519 = STPubKeyEd25519"
  by (simp add: p2pk_ed25519_def DetermineScriptTypeV0_def IsPubKeyScriptV0_def ExtractPubKeyV0_def
        ExtractCompressedPubKeyV0_def ExtractUncompressedPubKeyV0_def IsPubKeyEd25519ScriptV0_def
        ExtractPubKeyAltDetailsV0_def IsSmallInt_def AsSmallInt_def isSmallInt_def asSmallInt_def)

text \<open>
  Claim C10.  On every byte string the extractors of the staging package return what the
  extractors of txscript return: the compressed, the uncompressed and the either-form
  public key, and the alternative public key with its signature type.  So
  \<open>DetermineScriptTypeV0\<close> reports the ECDSA pubkey type exactly when
  \<open>typeOfScript\<close> at version 0 gives PubKey, and one of the Ed25519 and Schnorr
  pubkey types exactly when it gives PubKeyAlt.
\<close>

theorem staging_extractors_agree:
  "ExtractCompressedPubKeyV0 script = extractCompressedPubKey script \<and>
   ExtractUncompressedPubKeyV0 script = extractUncompressedPubKey script \<and>
   ExtractPubKeyV0 script = extractPubKey script \<and>
   ExtractPubKeyAltDetailsV0 script = extractPubKeyAltDetails script \<and>
   (DetermineScriptTypeV0 script = STPubKeyEcdsaSecp256k1) = (typeOfScript 0 script = PubKeyTy) \<and>
   (DetermineScriptTypeV0 script = STPubKeyEd25519 \<or>
    DetermineScriptTypeV0 script = STPubKeySchnorrSecp256k1) =
     (typeOfScript 0 script = PubkeyAltTy)"
proof -
  have c: "ExtractCompressedPubKeyV0 script = extractCompressedPubKey script"
    by (simp add: ExtractCompressedPubKeyV0_def extractCompressedPubKey_def)
  have u: "ExtractUncompressedPubKeyV0 script = extractUncompressedPubKey script"
    by (simp add: ExtractUncompressedPubKeyV0_def extractUncompressedPubKey_def)
  have p: "ExtractPubKeyV0 script = extractPubKey script"
    by (simp add: ExtractPubKeyV0_def extractPubKey_def c u cong: option.case_cong)
  have enc: "IsStrictCompressedPubKeyEncoding key = isStrictPubKeyEncoding key"
    if "length key = 33" for key
    using that by (simp add: IsStrictCompressedPubKeyEncoding_def isStrictPubKeyEncoding_def)
  have len: "length (subslice script 1 34) = 33" if "length script = 36"
    using that by (simp add: subslice_def)
  have a: "ExtractPubKeyAltDetailsV0 script = extractPubKeyAltDetails script"
    using enc [OF len]
    by (auto simp: ExtractPubKeyAltDetailsV0_def extractPubKeyAltDetails_def
          IsSmallInt_def AsSmallInt_def)
  have k: "IsPubKeyScriptV0 script = isPubKeyScript script"
    by (simp add: IsPubKeyScriptV0_def isPubKeyScript_def p)
  have alt: "(IsPubKeyEd25519ScriptV0 script \<or> IsPubKeySchnorrSecp256k1ScriptV0 script) =
             isPubKeyAltScript script"
    by (auto simp: IsPubKeyEd25519ScriptV0_def IsPubKeySchnorrSecp256k1ScriptV0_def a
          isPubKeyAltScript_def extractPubKeyAltDetails_def split: prod.splits if_splits)
  have d1: "(DetermineScriptTypeV0 script = STPubKeyEcdsaSecp256k1) = (typeOfScript 0 script = PubKeyTy)"
    by (simp add: DetermineScriptTypeV0_def k typeOfScript_class_iff)
  have d2: "(DetermineScriptTypeV0 script = STPubKeyEd25519 \<or>
             DetermineScriptTypeV0 script = STPubKeySchnorrSecp256k1) =
            (typeOfScript 0 script = PubkeyAltTy)"
    using alt by (auto simp: DetermineScriptTypeV0_def k typeOfScript_class_iff)
  from c u p a d1 d2 show ?thesis by blast
qed

theorem staging_extractors_agree_witness:
  "DetermineScriptTypeV0 p2pk_ed25519 = STPubKeyEd25519 \<and>
   typeOfScript 0 p2pk_ed25519 = PubkeyAltTy \<and>
   fst (extractPubKeyAltDetails p2pk_ed25519) = fst (ExtractPubKeyAltDetailsV0 p2pk_ed25519)"
  using staging_extractors_agree [of p2pk_ed25519] p2pk_ed25519_staging by simp

section \<open>The redeem script of a signature script\<close>

text \<open>
  Claim C8.  The claim says that \<open>MultisigRedeemScriptFromScriptSig\<close> never panics,
  the empty script included.  The empty script parses to no operation, and the function
  indexes the last of them: it panics there, and only there.
\<close>

theorem redeem_script_panics_on_empty_script:
  "MultisigRedeemScriptFromScriptSig [] = Panic \<and>
   (\<forall>script. (MultisigRedeemScriptFromScriptSig script = Panic) = (script = []))"
  by (auto simp: MultisigRedeemScriptFromScriptSig_def parseScript_empty_iff parseScript_Nil
        split: sum.splits)

section \<open>Null data scripts\<close>

lemma decodeOp_plain:
  assumes "\<not> (OP_DATA_1 \<le> b \<and> b \<le> OP_PUSHDATA4)"
  shows "decodeOp (b # rest) = Some (b, None, 1)"
  using assms by (auto simp: decodeOp_def word_le_nat_alt)

lemma return_not_multisig: "\<not> isMultisigScript 0 (OP_RETURN # rest)"
proof -
  have "decodeOp (OP_RETURN # rest) = Some (OP_RETURN, None, 1)"
    by (rule decodeOp_plain) simp
  then have "Next (MakeScriptTokenizer 0 (OP_RETURN # rest)) =
          (True, (MakeScriptTokenizer 0 (OP_RETURN # rest))\<lparr>tk_offset := 1, tk_op := OP_RETURN, tk_data := None\<rparr>)"
    by (simp add: Next_def Done_def MakeScriptTokenizer_def)
  then show ?thesis
    by (simp add: isMultisigScript_def extractMultisigScriptDetails_def noMultiSigDetails_def
          isSmallInt_def)
qed

lemma return_no_byte_template:
  "\<not> isPubKeyScript (OP_RETURN # rest)" "\<not> isPubKeyAltScript (OP_RETURN # rest)"
  "\<not> isPubKeyHashScript (OP_RETURN # rest)" "\<not> isPubKeyHashAltScript (OP_RETURN # rest)"
  "\<not> isScriptHashScript (OP_RETURN # rest)" "\<not> isStakeSubmissionScript 0 (OP_RETURN # rest)"
  by (simp_all add: match_eval isStakeSubmissionScript_def extractStakePubKeyHash_def
        extractStakeScriptHash_def)

lemma return_no_stake:
  assumes "parseScript (OP_RETURN # rest) = Inr pops"
  shows "\<not> isStakeGen pops \<and> \<not> isStakeRevocation pops \<and> \<not> isSStxChange pops"
  using parseScript_first [OF assms]
  by (simp add: isStakeGen_def isStakeRevocation_def isSStxChange_def)

lemma typeOfScript_return:
  "typeOfScript 0 (OP_RETURN # rest) =
     (if isNullDataScript 0 (OP_RETURN # rest) then NullDataTy else NonStandardTy)"
  by (simp add: typeOfScript_def return_no_byte_template return_not_multisig return_no_stake
        split: sum.splits)

lemma isNullDataScript_one_push:
  assumes "decodeOp rest = Some (op, d, length rest)"
  shows "isNullDataScript 0 (OP_RETURN # rest) =
           ((isSmallInt op \<or> op \<le> OP_PUSHDATA4) \<and> length (bytes d) \<le> MaxDataCarrierSize)"
proof -
  from decodeOp_bounds [OF assms] have ne: "rest \<noteq> []" by simp
  from assms have "Next (MakeScriptTokenizer 0 rest) =
      (True, (MakeScriptTokenizer 0 rest)\<lparr>tk_offset := length rest, tk_op := op, tk_data := d\<rparr>)"
    using Next_decoded [of "MakeScriptTokenizer 0 rest" op d "length rest"]
    by (simp add: MakeScriptTokenizer_def)
  with ne show ?thesis
    by (simp add: isNullDataScript_def Done_def MakeScriptTokenizer_def)
qed

lemma decode_pushdata2_256:
  "decodeOp (OP_PUSHDATA2 # 0x00 # 0x01 # replicate 256 0xaa) =
     Some (OP_PUSHDATA2, Some (replicate 256 0xaa),
           length (OP_PUSHDATA2 # 0x00 # 0x01 # replicate 256 (0xaa :: byte)))"
  by (simp add: decodeOp_def decodePushData_def)

lemma decode_pushdata2_257:
  "decodeOp (OP_PUSHDATA2 # 0x01 # 0x01 # replicate 257 0xaa) =
     Some (OP_PUSHDATA2, Some (replicate 257 0xaa),
           length (OP_PUSHDATA2 # 0x01 # 0x01 # replicate 257 (0xaa :: byte)))"
  by (simp add: decodeOp_def decodePushData_def)

text \<open>
  Claim C3.  At version 0 a script that is \<open>OP_RETURN\<close> alone is NullData.  A script
  that is \<open>OP_RETURN\<close> followed by exactly one operation, a small integer or a data
  push, is NullData when the payload of that operation has exactly 256 bytes and NonStandard
  when it has 257; more generally it is NullData exactly when the payload has at most 256
  bytes.  "Exactly one operation" is: the bytes after \<open>OP_RETURN\<close> decode to one
  operation that takes all of them.
\<close>

theorem nulldata_boundary:
  assumes "decodeOp rest = Some (op, d, length rest)" "isSmallInt op \<or> op \<le> OP_PUSHDATA4"
  shows "typeOfScript 0 [OP_RETURN] = NullDataTy \<and>
         (length (bytes d) = 256 \<longrightarrow> typeOfScript 0 (OP_RETURN # rest) = NullDataTy) \<and>
         (length (bytes d) = 257 \<longrightarrow> typeOfScript 0 (OP_RETURN # rest) = NonStandardTy) \<and>
         (typeOfScript 0 (OP_RETURN # rest) = NullDataTy) = (length (bytes d) \<le> 256)"
proof -
  have l: "typeOfScript 0 [OP_RETURN] = NullDataTy"
    by (simp add: typeOfScript_return isNullDataScript_def)
  show ?thesis
    using l assms(2) by (simp add: typeOfScript_return isNullDataScript_one_push [OF assms(1)])
qed

theorem nulldata_boundary_witness:
  "typeOfScript 0 (OP_RETURN # OP_PUSHDATA2 # 0x00 # 0x01 # replicate 256 0xaa) = NullDataTy \<and>
   typeOfScript 0 (OP_RETURN # OP_PUSHDATA2 # 0x01 # 0x01 # replicate 257 0xaa) = NonStandardTy"
  using nulldata_boundary [OF decode_pushdata2_256]
        nulldata_boundary [OF decode_pushdata2_257]
  by (simp add: bytes_def)

section \<open>Multisig scripts\<close>

lemma multisig_class_parse:
  assumes "typeOfScript 0 script = MultiSigTy"
  shows "\<exists>pops. parseScript script = Inr pops \<and>
           int (length pops) = numPubKeys (extractMultisigScriptDetails 0 script False) + 3 \<and>
           0 \<le> numPubKeys (extractMultisigScriptDetails 0 script False) \<and>
           requiredSigs (extractMultisigScriptDetails 0 script False) =
             asSmallInt (opcode_value (pops ! 0))"
proof -
  from assms have "isMultisigScript 0 script" by (simp add: typeOfScript_class_iff)
  then have "valid (extractMultisigScriptDetails 0 script False)"
    by (simp add: isMultisigScript_def)
  then show ?thesis by (rule multisig_valid_parse)
qed

lemma expectedInputs_multisig:
  assumes "typeOfScript 0 script = MultiSigTy" "parseScript script = Inr pops"
  shows "expectedInputs pops MultiSigTy subclass =
           Value (requiredSigs (extractMultisigScriptDetails 0 script False))"
proof -
  from multisig_class_parse [OF assms(1)] assms(2)
  have "int (length pops) = numPubKeys (extractMultisigScriptDetails 0 script False) + 3"
    "0 \<le> numPubKeys (extractMultisigScriptDetails 0 script False)"
    and r: "requiredSigs (extractMultisigScriptDetails 0 script False) =
             asSmallInt (opcode_value (pops ! 0))"
    by auto
  then have "pops \<noteq> []" by auto
  with r show ?thesis by (simp add: expectedInputs_def)
qed

lemma short_multisig_parse:
  "parseScript [OP_1, OP_CHECKMULTISIG] =
     Inr [\<lparr>opcode_value = OP_1, data = None\<rparr>, \<lparr>opcode_value = OP_CHECKMULTISIG, data = None\<rparr>]"
  by (simp add: parseScript.simps decodeOp_def)

text \<open>
  Claim C4, as the spec has it: a version-0 script that decodes to fewer than 4 operations
  is never multisig.  It fails on \<open>OP_0 OP_0 OP_CHECKMULTISIG\<close>, which decodes to 3
  operations: the matcher only asks for 3 bytes, a small integer, as many keys as the second
  small integer says, and \<open>OP_CHECKMULTISIG\<close>, so zero keys are accepted.
\<close>

theorem multisig_three_operations_counterexample:
  "parseScript [OP_0, OP_0, OP_CHECKMULTISIG] =
     Inr [\<lparr>opcode_value = OP_0, data = None\<rparr>, \<lparr>opcode_value = OP_0, data = None\<rparr>,
          \<lparr>opcode_value = OP_CHECKMULTISIG, data = None\<rparr>] \<and>
   length [\<lparr>opcode_value = OP_0, data = None\<rparr>, \<lparr>opcode_value = OP_0, data = None\<rparr>,
          \<lparr>opcode_value = OP_CHECKMULTISIG, data = None\<rparr>] < 4 \<and>
   extractMultisigScriptDetails 0 [OP_0, OP_0, OP_CHECKMULTISIG] False =
     \<lparr>requiredSigs = 0, numPubKeys = 0, pubKeys = [], valid = True\<rparr> \<and>
   isMultisigScript 0 [OP_0, OP_0, OP_CHECKMULTISIG] \<and>
   typeOfScript 0 [OP_0, OP_0, OP_CHECKMULTISIG] = MultiSigTy"
proof -
  have p: "parseScript [OP_0, OP_0, OP_CHECKMULTISIG] =
     Inr [\<lparr>opcode_value = OP_0, data = None\<rparr>, \<lparr>opcode_value = OP_0, data = None\<rparr>,
          \<lparr>opcode_value = OP_CHECKMULTISIG, data = None\<rparr>]"
    by (simp add: parseScript.simps decodeOp_def)
  have d: "extractMultisigScriptDetails 0 [OP_0, OP_0, OP_CHECKMULTISIG] False =
     \<lparr>requiredSigs = 0, numPubKeys = 0, pubKeys = [], valid = True\<rparr>"
    by (simp add: extractMultisigScriptDetails_def pubKeyLoop.simps tok_eval)
  then have m: "isMultisigScript 0 [OP_0, OP_0, OP_CHECKMULTISIG]"
    by (simp add: isMultisigScript_def)
  then have t: "typeOfScript 0 [OP_0, OP_0, OP_CHECKMULTISIG] = MultiSigTy"
    by (simp add: typeOfScript_class_iff match_eval)
  from p d m t show ?thesis by simp
qed

text \<open>
  Claim C4, amended.  A version-0 script that the multisig matcher accepts decodes to exactly
  \<open>numPubKeys + 3\<close> operations.  So a script that decodes to fewer than 3 operations is
  never multisig: \<open>extractMultisigScriptDetails\<close> returns \<open>valid = false\<close>,
  \<open>isMultisigScript\<close> returns false and the script is not classified MultiSig; and a
  script of fewer than 4 operations is multisig only with zero public keys.
\<close>

theorem multisig_needs_three_operations:
  assumes "parseScript script = Inr pops"
  shows "(valid (extractMultisigScriptDetails 0 script extractPubKeys) \<longrightarrow>
            int (length pops) =
              numPubKeys (extractMultisigScriptDetails 0 script extractPubKeys) + 3 \<and>
            0 \<le> numPubKeys (extractMultisigScriptDetails 0 script extractPubKeys)) \<and>
         (length pops < 3 \<longrightarrow>
            \<not> valid (extractMultisigScriptDetails 0 script extractPubKeys) \<and>
            \<not> isMultisigScript 0 script \<and>
            typeOfScript 0 script \<noteq> MultiSigTy)"
proof -
  have v: "int (length pops) = numPubKeys (extractMultisigScriptDetails 0 script e) + 3 \<and>
           0 \<le> numPubKeys (extractMultisigScriptDetails 0 script e)"
    if "valid (extractMultisigScriptDetails 0 script e)" for e
    using multisig_valid_parse [OF that] assms by auto
  then have three: "3 \<le> length pops" if "valid (extractMultisigScriptDetails 0 script e)" for e
    using that by fastforce
  have m: "isMultisigScript 0 script \<Longrightarrow> 3 \<le> length pops"
    using three [of False] by (simp add: isMultisigScript_def)
  have t: "typeOfScript 0 script = MultiSigTy \<Longrightarrow> 3 \<le> length pops"
    using m by (simp add: typeOfScript_class_iff)
  from v [of extractPubKeys] three [of extractPubKeys] m t show ?thesis by auto
qed

theorem multisig_needs_three_operations_witness:
  "parseScript [OP_1, OP_CHECKMULTISIG] =
     Inr [\<lparr>opcode_value = OP_1, data = None\<rparr>, \<lparr>opcode_value = OP_CHECKMULTISIG, data = None\<rparr>] \<and>
   \<not> valid (extractMultisigScriptDetails 0 [OP_1, OP_CHECKMULTISIG] True) \<and>
   \<not> isMultisigScript 0 [OP_1, OP_CHECKMULTISIG] \<and>
   typeOfScript 0 [OP_1, OP_CHECKMULTISIG] \<noteq> MultiSigTy"
  using multisig_needs_three_operations [OF short_multisig_parse, of True] short_multisig_parse
  by simp

text \<open>
  Claim C5.  The claim says that for a script pair that \<open>CalcScriptInfo\<close> accepts and
  whose public key script is multisig, directly or as the redeem script of a
  pay-to-script-hash with \<open>bip16\<close> set, the expected inputs are the required
  signatures plus one.  \<open>expectedInputs\<close> returns the small integer of the first
  operation and adds nothing, although its comment announces the extra input: the expected
  inputs are the required signatures themselves (plus the 1 of the pay-to-script-hash
  script in the second case).
\<close>

theorem multisig_expected_inputs_without_extra:
  "(CalcScriptInfo getSigOpCount sigScript pkScript bip16 = Value si \<and>
    PkScriptClass si = MultiSigTy \<longrightarrow>
      ExpectedInputs si = requiredSigs (extractMultisigScriptDetails 0 pkScript False)) \<and>
   (CalcScriptInfo getSigOpCount sigScript pkScript True = Value si \<and>
    PkScriptClass si = ScriptHashTy \<and> parseScript sigScript = Inr sigPops \<and>
    typeOfScript 0 (bytes (data (sigPops ! (length sigPops - 1)))) = MultiSigTy \<longrightarrow>
      ExpectedInputs si =
        1 + requiredSigs (extractMultisigScriptDetails 0
              (bytes (data (sigPops ! (length sigPops - 1)))) False))"
proof (intro conjI impI)
  assume a: "CalcScriptInfo getSigOpCount sigScript pkScript bip16 = Value si \<and>
    PkScriptClass si = MultiSigTy"
  then obtain sp pp where sp: "parseScript sigScript = Inr sp" and pp: "parseScript pkScript = Inr pp"
    by (auto simp: CalcScriptInfo_def split: sum.splits)
  from a sp pp have cls: "typeOfScript 0 pkScript = MultiSigTy"
    by (auto simp: CalcScriptInfo_def Let_def split: if_splits outcome.splits sum.splits)
  have ns: "\<not> isStakeClass MultiSigTy" by (simp add: isStakeClass_def)
  from a sp pp cls ns expectedInputs_multisig [OF cls pp, of 0]
  show "ExpectedInputs si = requiredSigs (extractMultisigScriptDetails 0 pkScript False)"
    by (auto simp: CalcScriptInfo_def Let_def split: if_splits)
next
  let ?redeem = "bytes (data (sigPops ! (length sigPops - 1)))"
  assume a: "CalcScriptInfo getSigOpCount sigScript pkScript True = Value si \<and>
    PkScriptClass si = ScriptHashTy \<and> parseScript sigScript = Inr sigPops \<and>
    typeOfScript 0 ?redeem = MultiSigTy"
  then have sp: "parseScript sigScript = Inr sigPops" and rc: "typeOfScript 0 ?redeem = MultiSigTy"
    by simp_all
  from a obtain pp where pp: "parseScript pkScript = Inr pp"
    by (auto simp: CalcScriptInfo_def split: sum.splits)
  from a sp pp have cls: "typeOfScript 0 pkScript = ScriptHashTy"
    by (auto simp: CalcScriptInfo_def Let_def split: if_splits outcome.splits sum.splits)
  have ns: "\<not> isStakeClass ScriptHashTy" by (simp add: isStakeClass_def)
  have e1: "expectedInputs pp ScriptHashTy 0 = Value 1" by (simp add: expectedInputs_def)
  from multisig_class_parse [OF rc] obtain rp where rp: "parseScript ?redeem = Inr rp" by blast
  note e2 = expectedInputs_multisig [OF rc rp, of 0]
  have nn: "requiredSigs (extractMultisigScriptDetails 0 ?redeem False) \<noteq> - 1"
  proof -
    have nonneg: "0 \<le> asSmallInt b" for b by (simp add: asSmallInt_def)
    from multisig_class_parse [OF rc] obtain ps :: "parsedOpcode list" where
      "requiredSigs (extractMultisigScriptDetails 0 ?redeem False) =
         asSmallInt (opcode_value (ps ! 0))"
      by blast
    with nonneg [of "opcode_value (ps ! 0)"] show ?thesis by simp
  qed
  from a sp pp cls ns e1 rp e2 nn
  show "ExpectedInputs si = 1 + requiredSigs (extractMultisigScriptDetails 0 ?redeem False)"
    by (auto simp: CalcScriptInfo_def Let_def split: if_splits)
qed

lemma msig_1of1_required: "requiredSigs (extractMultisigScriptDetails 0 msig_1of1 False) = 1"
  by (simp add: msig_1of1_def extractMultisigScriptDetails_def pubKeyLoop.simps tok_eval)

lemma msig_1of1_class: "typeOfScript 0 msig_1of1 = MultiSigTy"
  by (simp add: msig_1of1_def typeOfScript_def match_eval isMultisigScript_def
        extractMultisigScriptDetails_def pubKeyLoop.simps tok_eval)

lemma msig_1of1_info:
  "\<exists>si. CalcScriptInfo getSigOpCount [OP_0] msig_1of1 False = Value si \<and>
     PkScriptClass si = MultiSigTy \<and> NumInputs si = 1 \<and> ExpectedInputs si = 1"
proof -
  have s: "parseScript [OP_0] = Inr [\<lparr>opcode_value = OP_0, data = None\<rparr>]"
    by (simp add: parseScript.simps decodeOp_def)
  obtain pops where p: "parseScript msig_1of1 = Inr pops" and
    h: "pops \<noteq> []" "opcode_value (pops ! 0) = OP_1"
    by (simp add: msig_1of1_def parseScript.simps decodeOp_def)
  show ?thesis
    using msig_1of1_class
    by (simp add: CalcScriptInfo_def s p h isPushOnly_def isStakeClass_def expectedInputs_def
          asSmallInt_def)
qed

theorem multisig_expected_inputs_without_extra_witness:
  "\<forall>getSigOpCount. \<exists>si. CalcScriptInfo getSigOpCount [OP_0] msig_1of1 False = Value si \<and>
     PkScriptClass si = MultiSigTy \<and>
     requiredSigs (extractMultisigScriptDetails 0 msig_1of1 False) = 1 \<and>
     ExpectedInputs si = 1 \<and> ExpectedInputs si \<noteq> 1 + 1"
proof
  fix g
  from msig_1of1_info [of g] obtain si where
    si: "CalcScriptInfo g [OP_0] msig_1of1 False = Value si" and c: "PkScriptClass si = MultiSigTy"
    by auto
  from multisig_expected_inputs_without_extra [of g "[OP_0]" msig_1of1 False si] si c
  have "ExpectedInputs si = requiredSigs (extractMultisigScriptDetails 0 msig_1of1 False)"
    by blast
  with si c msig_1of1_required
  show "\<exists>si. CalcScriptInfo g [OP_0] msig_1of1 False = Value si \<and>
     PkScriptClass si = MultiSigTy \<and>
     requiredSigs (extractMultisigScriptDetails 0 msig_1of1 False) = 1 \<and>
     ExpectedInputs si = 1 \<and> ExpectedInputs si \<noteq> 1 + 1"
    by auto
qed

section \<open>Atomic swap contracts\<close>








section \<open>The commitment push of a ticket\<close>

lemma PutUint64_length: "length (PutUint64 v) = 8"
  by (simp add: PutUint64_def)

lemma PutUint16_length: "length (PutUint16 v) = 2"
  by (simp add: PutUint16_def)

lemma adBytes_layout:
  assumes "length hash = 20" "length a = 8" "length l = 2"
  shows "copy_to (copy_to (copy_to (replicate 30 0) 0 20 hash) 20 28 a) 28 30 l =
         hash @ a @ l"
  using assms by (simp add: copy_to_def)

lemma AddData_30:
  assumes "length d = 30"
  shows "AddData b d = b @ [OP_DATA_30] @ d"
  using assms by (simp add: AddData_def)

lemma bit_flag63: "bit (push_bit 63 (1 :: 64 word)) n = (n = 63)"
  by (auto simp only: bit_push_bit_iff bit_1_iff possible_bit_word len_of_numeral_defs)

lemma bit_flag7: "bit (push_bit 7 (1 :: byte)) n = (n = 7)"
  by (auto simp only: bit_push_bit_iff bit_1_iff possible_bit_word len_of_numeral_defs)

lemma set_flag:
  "(PutUint64 amount)[7 := PutUint64 amount ! 7 OR push_bit 7 1] =
     PutUint64 (amount OR push_bit 63 1)"
proof -
  define m :: "64 word" where "m = push_bit 63 1"
  define f :: byte where "f = push_bit 7 1"
  have bm: "bit m n = (n = 63)" for n unfolding m_def by (rule bit_flag63)
  have bf: "bit f n = (n = 7)" for n unfolding f_def by (rule bit_flag7)
  have low: "ucast (drop_bit k amount OR drop_bit k m) = (ucast (drop_bit k amount) :: byte)"
    if "k + 8 \<le> 63" for k
    using that by (intro bit_word_eqI) (auto simp: bit_simps bm)
  have high: "ucast (drop_bit 56 amount OR drop_bit 56 m) =
              (ucast (drop_bit 56 amount) :: byte) OR f"
    by (intro bit_word_eqI) (auto simp: bit_simps bm bf)
  have l0: "ucast (amount OR m) = (ucast amount :: byte)"
    by (intro bit_word_eqI) (auto simp: bit_simps bm)
  have "(PutUint64 amount)[7 := PutUint64 amount ! 7 OR f] = PutUint64 (amount OR m)"
    by (simp add: PutUint64_def low high l0)
  then show ?thesis by (simp only: m_def f_def)
qed

lemma set_flag_numeral:
  "(PutUint64 amount)[7 := PutUint64 amount ! 7 OR 128] =
     PutUint64 (amount OR 9223372036854775808)"
  using set_flag [of amount] by simp

lemma sstx_push_zero_eval:
  "GenerateSStxAddrPush (AddressScriptHash (Some zero_hash)) 0 0 = Inr sstx_push_zero"
  by (simp add: GenerateSStxAddrPush_def copy_to_def PutUint64_def PutUint16_def AddData_def
        AddOp_def NewScriptBuilder_def Script_def sstx_push_zero_def zero_hash_def Let_def)

text \<open>
  Claim C9, as the spec has it: the flag that tells a script-hash address from a
  pubkey-hash address is the top bit of the second byte of the limit field.  For a
  script-hash address, amount 0 and limits 0 the second byte of the limit field, the last
  byte of the script, is 0: the bit that is set is the top bit of the last byte of the
  amount field (byte 29 of the script, byte 27 of the pushed data).
\<close>

theorem sstx_addr_push_flag_counterexample:
  "GenerateSStxAddrPush (AddressScriptHash (Some zero_hash)) 0 0 = Inr sstx_push_zero \<and>
   length sstx_push_zero = 32 \<and>
   sstx_push_zero ! 31 = 0 \<and> \<not> bit (sstx_push_zero ! 31) 7 \<and>
   sstx_push_zero ! 29 = 0x80"
  using sstx_push_zero_eval by (simp add: sstx_push_zero_def)

text \<open>
  Claim C9, amended.  For a pubkey-hash address of the ECDSA scheme or a script-hash address
  with a 20-byte hash, \<open>GenerateSStxAddrPush\<close> produces \<open>OP_RETURN\<close> followed by
  a single 30-byte push: the hash, the amount in 8 bytes little-endian and the limits in 2
  bytes little-endian, unchanged.  For a script-hash address bit 63 of the amount field, the
  top bit of its last byte, is set; for a pubkey-hash address the amount field is the
  amount as it is.
\<close>

theorem sstx_addr_push_layout:
  assumes "length hash = 20"
  shows "GenerateSStxAddrPush (AddressPubKeyHash (Some (hash, STEcdsaSecp256k1))) amount limits =
           Inr ([OP_RETURN, OP_DATA_30] @ hash @ PutUint64 amount @ PutUint16 limits) \<and>
         GenerateSStxAddrPush (AddressScriptHash (Some hash)) amount limits =
           Inr ([OP_RETURN, OP_DATA_30] @ hash @ PutUint64 (amount OR push_bit 63 1) @
                PutUint16 limits)"
proof -
  note lay = adBytes_layout [OF assms PutUint64_length PutUint16_length, of amount limits]
  have len: "length (hash @ PutUint64 v @ PutUint16 limits) = 30" for v
    using assms by (simp add: PutUint64_length PutUint16_length)
  have pkh: "GenerateSStxAddrPush (AddressPubKeyHash (Some (hash, STEcdsaSecp256k1))) amount limits =
           Inr ([OP_RETURN, OP_DATA_30] @ hash @ PutUint64 amount @ PutUint16 limits)"
    by (simp add: GenerateSStxAddrPush_def Let_def lay AddData_30 [OF len] AddOp_def
          NewScriptBuilder_def Script_def)
  have upd: "(hash @ PutUint64 amount @ PutUint16 limits)
               [27 := (hash @ PutUint64 amount @ PutUint16 limits) ! 27 OR 128] =
             hash @ PutUint64 (amount OR 9223372036854775808) @ PutUint16 limits"
    using assms
    by (simp add: list_update_append nth_append PutUint64_length set_flag_numeral)
  have sh: "GenerateSStxAddrPush (AddressScriptHash (Some hash)) amount limits =
           Inr ([OP_RETURN, OP_DATA_30] @ hash @ PutUint64 (amount OR push_bit 63 1) @
                PutUint16 limits)"
    by (simp add: GenerateSStxAddrPush_def Let_def lay upd AddData_30 [OF len] AddOp_def
          NewScriptBuilder_def Script_def)
  from pkh sh show ?thesis by simp
qed


theorem sstx_addr_push_layout_witness:
  "GenerateSStxAddrPush (AddressScriptHash (Some zero_hash)) 0 0 =
     Inr ([OP_RETURN, OP_DATA_30] @ zero_hash @ [0, 0, 0, 0, 0, 0, 0, 0x80] @ [0, 0]) \<and>
   GenerateSStxAddrPush (AddressPubKeyHash (Some (zero_hash, STEcdsaSecp256k1))) 0 0x8000 =
     Inr ([OP_RETURN, OP_DATA_30] @ zero_hash @ [0, 0, 0, 0, 0, 0, 0, 0] @ [0, 0x80])"
proof -
  have l: "length zero_hash = 20" by (simp add: zero_hash_def)
  from sstx_addr_push_layout [OF l, of 0 0] sstx_addr_push_layout [OF l, of 0 "0x8000"]
  show ?thesis by (simp add: PutUint64_def PutUint16_def)
qed


section \<open>Display names of script classes\<close>

lemma String_defined_class:
  "String NonStandardTy = Value ''nonstandard''"
  "String PubKeyTy = Value ''pubkey''"
  "String PubKeyHashTy = Value ''pubkeyhash''"
  "String ScriptHashTy = Value ''scripthash''"
  "String MultiSigTy = Value ''multisig''"
  "String NullDataTy = Value ''nulldata''"
  "String StakeSubmissionTy = Value ''stakesubmission''"
  "String StakeGenTy = Value ''stakegen''"
  "String StakeRevocationTy = Value ''stakerevoke''"
  "String StakeSubChangeTy = Value ''sstxchange''"
  "String PubkeyAltTy = Value ''pubkeyalt''"
  "String PubkeyHashAltTy = Value ''pubkeyhashalt''"
  by (simp_all add: String_def scriptClassToName_def)

lemma String_above_table:
  assumes "12 < unat t"
  shows "String t = Value ''Invalid''"
  using assms by (simp add: String_def scriptClassToName_def)

text \<open>
  Claim C7.  The claim says that every class value outside the twelve defined ones, the
  value 12 in particular, is displayed as "Invalid" and that the table is never indexed
  out of range.  The guard of \<open>String\<close> compares with \<open>>\<close> where \<open>>=\<close> is needed:
  at the value 12 the guard is false and the table, which has 12 entries, is indexed at
  12, which panics.  12 is the only value at which this happens.
\<close>

theorem String_panics_at_first_invalid_class:
  "String 12 = Panic \<and> String 12 \<noteq> Value ''Invalid'' \<and> (\<forall>t. (String t = Panic) = (t = 12))"
proof -
  have a: "String 12 = Panic"
    by (simp add: String_def scriptClassToName_def)
  have b: "(String t = Panic) = (t = 12)" for t
  proof
    assume p: "String t = Panic"
    then have "unat t = 12"
      by (simp add: String_def scriptClassToName_def split: if_splits)
    then have "unat t = unat (12 :: byte)" by simp
    then show "t = 12" by (simp only: word_unat_eq_iff)
  next
    assume "t = 12" then show "String t = Panic" using a by simp
  qed
  from a have c: "String 12 \<noteq> Value ''Invalid''" by simp
  from a b c show ?thesis by blast
qed

end
